theory Spec2Isabelle
  imports Complex_Main "HOL-Library.Sublist"
begin

section \<open>Python strings\<close>

text \<open>
  A Python \<open>str\<close> is modelled as a \<open>string\<close>. The model covers ASCII text: on the
  characters below 128 the functions of this section (\<open>str.lower\<close>, \<open>str.strip\<close>,
  the classes \<open>\d\<close>, \<open>\s\<close>, \<open>\w\<close> of module \<open>re\<close>) agree with CPython. In
  CPython a character above 127 may have a case (and a lower-case form of several
  characters) and may be a digit, a space or a letter; in the model it is caseless and
  belongs to no class. A statement about every text that depends on the case of its
  characters is therefore made for the texts that satisfy \<open>is_ascii\<close>. The interpreter's
  optional cap on the length of int/str conversions (a runtime setting) is not modelled.
\<close>

text \<open>
  The line feed, the double quote and the apostrophe. In the literals of the source, a
  character outside ASCII (the glyphs of the reports) is written as the bytes of its
  UTF-8 encoding.
\<close>

definition nl :: string where
  "nl = [CHR 0x0A]"

definition dq :: string where
  "dq = [CHR 0x22]"

definition sq :: string where
  "sq = [CHR 0x27]"

definition ascii_upper :: string where
  "ascii_upper = ''ABCDEFGHIJKLMNOPQRSTUVWXYZ''"

definition ascii_lower :: string where
  "ascii_lower = ''abcdefghijklmnopqrstuvwxyz''"

definition ascii_digits :: string where
  "ascii_digits = ''0123456789''"

text \<open>\<open>str.isspace\<close> on ASCII: TAB, LF, VT, FF, CR, the separators 0x1C-0x1F, and space.\<close>

definition ascii_space :: string where
  "ascii_space = [CHR 0x09, CHR 0x0A, CHR 0x0B, CHR 0x0C, CHR 0x0D,
                  CHR 0x1C, CHR 0x1D, CHR 0x1E, CHR 0x1F, CHR 0x20]"

definition lower_char :: "char \<Rightarrow> char" where
  "lower_char c = (case map_of (zip ascii_upper ascii_lower) c of Some d \<Rightarrow> d | None \<Rightarrow> c)"

definition upper_char :: "char \<Rightarrow> char" where
  "upper_char c = (case map_of (zip ascii_lower ascii_upper) c of Some d \<Rightarrow> d | None \<Rightarrow> c)"

definition is_digit :: "char \<Rightarrow> bool" where
  "is_digit c = (c \<in> set ascii_digits)"

definition is_space :: "char \<Rightarrow> bool" where
  "is_space c = (c \<in> set ascii_space)"

definition is_alpha :: "char \<Rightarrow> bool" where
  "is_alpha c = (c \<in> set ascii_upper \<or> c \<in> set ascii_lower)"

definition is_word :: "char \<Rightarrow> bool" where
  "is_word c = (is_alpha c \<or> is_digit c \<or> c = CHR ''_'')"

text \<open>\<open>s.isascii()\<close>.\<close>

definition is_ascii :: "string \<Rightarrow> bool" where
  "is_ascii s = list_all (\<lambda>c. of_char c < (128 :: nat)) s"

definition lower :: "string \<Rightarrow> string" where
  "lower s = map lower_char s"

definition upper :: "string \<Rightarrow> string" where
  "upper s = map upper_char s"

definition strip :: "string \<Rightarrow> string" where
  "strip s = rev (dropWhile is_space (rev (dropWhile is_space s)))"

text \<open>\<open>sub in s\<close>: \<open>sub\<close> occurs in \<open>s\<close> as a contiguous run of characters.\<close>

fun py_in :: "string \<Rightarrow> string \<Rightarrow> bool" where
  "py_in sub [] = (sub = [])"
| "py_in sub (c # cs) = (prefix sub (c # cs) \<or> py_in sub cs)"

text \<open>\<open>any(w in s for w in ws)\<close>.\<close>

definition any_in :: "string list \<Rightarrow> string \<Rightarrow> bool" where
  "any_in ws s = list_ex (\<lambda>w. py_in w s) ws"

text \<open>\<open>s.startswith(p)\<close>.\<close>

definition startswith :: "string \<Rightarrow> string \<Rightarrow> bool" where
  "startswith s p = prefix p s"

text \<open>Truth value of an \<open>Optional[str]\<close>: \<open>None\<close> and the empty string are false.\<close>

fun truthy :: "string option \<Rightarrow> bool" where
  "truthy None = False"
| "truthy (Some s) = (s \<noteq> [])"

text \<open>\<open>x or d\<close> on an \<open>Optional[str]\<close>.\<close>

definition or_else :: "string option \<Rightarrow> string \<Rightarrow> string" where
  "or_else x d = (case x of None \<Rightarrow> d | Some s \<Rightarrow> if s = [] then d else s)"

text \<open>\<open>str(n)\<close> for a natural number, and \<open>int(s)\<close> for a string of decimal digits.\<close>

fun show_nat :: "nat \<Rightarrow> string" where
  "show_nat n = (if n < 10 then [ascii_digits ! n] else show_nat (n div 10) @ [ascii_digits ! (n mod 10)])"

declare show_nat.simps [simp del]

definition show_int :: "int \<Rightarrow> string" where
  "show_int i = (if i < 0 then CHR ''-'' # show_nat (nat (- i)) else show_nat (nat i))"

definition digit_val :: "char \<Rightarrow> nat" where
  "digit_val c = (case map_of (zip ascii_digits [0 ..< 10]) c of Some d \<Rightarrow> d | None \<Rightarrow> 0)"

datatype pyerr = ValueError string | TypeError string | HTTPError string

text \<open>
  \<open>int(x)\<close> where \<open>x\<close> is a group of a match: \<open>None\<close> is a TypeError, a string that is
  not a run of digits a ValueError (the patterns below only ever capture runs of digits).
\<close>

definition py_int :: "string option \<Rightarrow> pyerr + nat" where
  "py_int x = (case x of
      None \<Rightarrow> Inl (TypeError ''int() argument must be a string, a bytes-like object or a real number'')
    | Some s \<Rightarrow>
        if s \<noteq> [] \<and> list_all is_digit s then Inr (foldl (\<lambda>acc c. acc * 10 + digit_val c) 0 s)
        else Inl (ValueError ''invalid literal for int() with base 10''))"

text \<open>An \<open>Optional[str]\<close> inside an f-string.\<close>

definition fmt_opt :: "string option \<Rightarrow> string" where
  "fmt_opt x = (case x of None \<Rightarrow> ''None'' | Some s \<Rightarrow> s)"

section \<open>Regular expressions (module re, flag IGNORECASE)\<close>

text \<open>
  The patterns of \<open>agent_executor.py\<close> use literals, \<open>\d\<close>, \<open>\s\<close>, \<open>\b\<close>, the
  class \<open>[A-Z0-9_-]\<close>, greedy \<open>?\<close>, \<open>*\<close>, \<open>+\<close>, non-capturing groups and one capturing
  group. \<open>rx\<close> is that fragment; every literal and the class are matched ignoring case,
  as all the searches of the source pass \<open>re.IGNORECASE\<close>. Case and classes are those
  of the section on strings: the matcher is that of module \<open>re\<close> on ASCII text (on a
  text with characters above 127, \<open>re\<close> also matches a letter against such a character
  of which it is a case variant, and \<open>\d\<close>, \<open>\s\<close>, \<open>\b\<close> follow Unicode).
\<close>

datatype rx = Eps | Chr char | Dig | Spc | Idc | Bnd | Seq rx rx | Opt rx | Star rx | Grp rx

text \<open>
  A matcher state: the text before the current position (reversed), the text from the
  current position on, and the text captured by group 1 so far.
\<close>

type_synonym mstate = "string \<times> string \<times> string option"

fun one_char :: "(char \<Rightarrow> bool) \<Rightarrow> mstate \<Rightarrow> mstate list" where
  "one_char P (b, [], g) = []"
| "one_char P (b, x # xs, g) = (if P x then [(x # b, xs, g)] else [])"

text \<open>\<open>\b\<close>: exactly one of the characters before and after the position is a word character.\<close>

definition at_boundary :: "string \<Rightarrow> string \<Rightarrow> bool" where
  "at_boundary b r =
     ((case b of [] \<Rightarrow> False | x # _ \<Rightarrow> is_word x) \<noteq> (case r of [] \<Rightarrow> False | y # _ \<Rightarrow> is_word y))"

text \<open>
  \<open>rx_match p st\<close> lists the states in which a match of \<open>p\<close> started in \<open>st\<close> can end,
  in the order in which the backtracking matcher tries them (greedy: the longer
  repetition first). The first state of the list is the match that \<open>re\<close> reports.
  A repetition goes on only after an iteration that consumed a character, as every
  iteration of the repetitions of the source does (their bodies are \<open>\d\<close>, \<open>\s\<close> and
  the class).
\<close>

fun rx_match :: "rx \<Rightarrow> mstate \<Rightarrow> mstate list" where
  "rx_match Eps st = [st]"
| "rx_match (Chr c) st = one_char (\<lambda>x. lower_char x = lower_char c) st"
| "rx_match Dig st = one_char is_digit st"
| "rx_match Spc st = one_char is_space st"
| "rx_match Idc st = one_char (\<lambda>x. is_alpha x \<or> is_digit x \<or> x = CHR ''_'' \<or> x = CHR ''-'') st"
| "rx_match Bnd (b, r, g) = (if at_boundary b r then [(b, r, g)] else [])"
| "rx_match (Seq p q) st = concat (map (rx_match q) (rx_match p st))"
| "rx_match (Opt p) st = rx_match p st @ [st]"
| "rx_match (Star p) (b, r, g) =
     concat (map (\<lambda>st'. if length (fst (snd st')) < length r then rx_match (Star p) st' else [])
                 (rx_match p (b, r, g))) @ [(b, r, g)]"
| "rx_match (Grp p) (b, r, g) =
     map (\<lambda>(b', r', g'). (b', r', Some (take (length r - length r') r))) (rx_match p (b, r, g))"

definition many1 :: "rx \<Rightarrow> rx" where
  "many1 p = Seq p (Star p)"

definition seqs :: "rx list \<Rightarrow> rx" where
  "seqs ps = foldr Seq ps Eps"

definition lit :: "string \<Rightarrow> rx" where
  "lit s = seqs (map Chr s)"

text \<open>
  \<open>re.search\<close>: the first match at the leftmost position that has one. The result is
  \<open>None\<close> for no match and \<open>Some g\<close> for a match whose \<open>group(1)\<close> is \<open>g\<close>.
\<close>

fun search_from :: "rx \<Rightarrow> string \<Rightarrow> string \<Rightarrow> string option option" where
  "search_from p b [] =
     (case rx_match p (b, [], None) of [] \<Rightarrow> None | st # _ \<Rightarrow> Some (snd (snd st)))"
| "search_from p b (x # xs) =
     (case rx_match p (b, x # xs, None) of
        [] \<Rightarrow> search_from p (x # b) xs
      | st # _ \<Rightarrow> Some (snd (snd st)))"

definition re_search :: "rx \<Rightarrow> string \<Rightarrow> string option option" where
  "re_search p s = search_from p [] s"

section \<open>agent\_executor.py: the intent classifier\<close>

subsection \<open>\_extract\_problem\_id\<close>

definition problem_id_patterns :: "rx list" where
  "problem_id_patterns =
    [seqs [Bnd, Grp (seqs [lit ''P-'', many1 Dig]), Bnd],
     seqs [Bnd, lit ''problem'', many1 Spc, Opt (seqs [lit ''id'', many1 Spc]), Opt (Chr CHR ''#''),
           Grp (many1 Dig), Bnd],
     seqs [Bnd, Grp (seqs [many1 Idc, Chr CHR ''_'', many1 Dig, Chr CHR ''V'', many1 Dig]), Bnd]]"

fun first_group :: "rx list \<Rightarrow> string \<Rightarrow> string option" where
  "first_group [] q = None"
| "first_group (p # ps) q = (case re_search p q of Some g \<Rightarrow> g | None \<Rightarrow> first_group ps q)"

definition extract_problem_id :: "string \<Rightarrow> string option" where
  "extract_problem_id q = first_group problem_id_patterns q"

subsection \<open>\_extract\_time\_range\<close>

text \<open>
  The formatters paired with the patterns: \<open>f"{m.group(1)}h"\<close>, \<open>f"{m.group(1)}d"\<close>,
  \<open>f"{int(m.group(1))*7}d"\<close> and a constant. Only \<open>int\<close> can raise; the model keeps the
  exception as a value, and \<open>extract_time_range_returns\<close> below shows that it never occurs.
\<close>

datatype formatter = Hours | Days | Weeks | Fixed string

fun run_formatter :: "formatter \<Rightarrow> string option \<Rightarrow> pyerr + string" where
  "run_formatter Hours g = Inr (fmt_opt g @ ''h'')"
| "run_formatter Days g = Inr (fmt_opt g @ ''d'')"
| "run_formatter Weeks g =
     (case py_int g of Inl e \<Rightarrow> Inl e | Inr n \<Rightarrow> Inr (show_nat (n * 7) @ ''d''))"
| "run_formatter (Fixed s) g = Inr s"

definition hour_unit :: "rx list" where
  "hour_unit = [Chr CHR ''h'', Opt (lit ''our''), Opt (Chr CHR ''s'')]"

definition day_unit :: "rx list" where
  "day_unit = [Chr CHR ''d'', Opt (lit ''ay''), Opt (Chr CHR ''s'')]"

definition week_unit :: "rx list" where
  "week_unit = [Chr CHR ''w'', Opt (lit ''eek''), Opt (Chr CHR ''s'')]"

definition time_patterns :: "(rx \<times> formatter) list" where
  "time_patterns =
    [(seqs ([lit ''last'', many1 Spc, Grp (many1 Dig), Star Spc] @ hour_unit), Hours),
     (seqs ([lit ''last'', many1 Spc, Grp (many1 Dig), Star Spc] @ day_unit), Days),
     (seqs ([lit ''last'', many1 Spc, Grp (many1 Dig), Star Spc] @ week_unit), Weeks),
     (seqs ([lit ''past'', many1 Spc, Grp (many1 Dig), Star Spc] @ hour_unit), Hours),
     (seqs ([lit ''past'', many1 Spc, Grp (many1 Dig), Star Spc] @ day_unit), Days),
     (seqs ([Grp (many1 Dig), Star Spc] @ hour_unit @ [many1 Spc, lit ''ago'']), Hours),
     (seqs ([Grp (many1 Dig), Star Spc] @ day_unit @ [many1 Spc, lit ''ago'']), Days),
     (lit ''today'', Fixed ''24h''),
     (seqs [lit ''this'', many1 Spc, lit ''week''], Fixed ''7d'')]"

fun first_formatted :: "(rx \<times> formatter) list \<Rightarrow> string \<Rightarrow> pyerr + string" where
  "first_formatted [] q = Inr ''24h''"
| "first_formatted ((p, f) # ps) q =
     (case re_search p q of Some g \<Rightarrow> run_formatter f g | None \<Rightarrow> first_formatted ps q)"

definition extract_time_range :: "string \<Rightarrow> pyerr + string" where
  "extract_time_range q = first_formatted time_patterns q"

subsection \<open>\_extract\_entity\_type and \_extract\_metric\_type\<close>

definition entity_mappings :: "(string \<times> string) list" where
  "entity_mappings =
    [(''service'', ''SERVICE''), (''services'', ''SERVICE''),
     (''host'', ''HOST''), (''hosts'', ''HOST''),
     (''server'', ''HOST''), (''servers'', ''HOST''),
     (''process'', ''PROCESS_GROUP''), (''processes'', ''PROCESS_GROUP''),
     (''application'', ''APPLICATION''), (''applications'', ''APPLICATION''),
     (''database'', ''DATABASE''), (''databases'', ''DATABASE'')]"

definition metric_keywords :: "(string \<times> string) list" where
  "metric_keywords =
    [(''cpu'', ''cpu''), (''processor'', ''cpu''),
     (''memory'', ''memory''), (''ram'', ''memory''),
     (''disk'', ''disk''), (''storage'', ''disk''),
     (''response time'', ''response_time''), (''latency'', ''response_time''),
     (''error rate'', ''error_rate''), (''errors'', ''error_rate''),
     (''throughput'', ''throughput''), (''requests'', ''throughput''),
     (''availability'', ''availability''), (''uptime'', ''availability''),
     (''network'', ''network''), (''traffic'', ''network'')]"

text \<open>The loop over a keyword table: the value of the first keyword that occurs in the text.\<close>

fun first_keyword :: "(string \<times> string) list \<Rightarrow> string \<Rightarrow> string option" where
  "first_keyword [] s = None"
| "first_keyword ((k, v) # kvs) s = (if py_in k s then Some v else first_keyword kvs s)"

definition extract_entity_type :: "string \<Rightarrow> string option" where
  "extract_entity_type q = first_keyword entity_mappings (lower q)"

definition extract_metric_type :: "string \<Rightarrow> string option" where
  "extract_metric_type q = first_keyword metric_keywords (lower q)"

subsection \<open>\_parse\_intent\<close>

text \<open>
  The result of \<open>_parse_intent\<close>: the skill name and the parameter dict, as the list of
  its items in insertion order. A parameter is a string or \<open>None\<close>.
\<close>

type_synonym intent = "string \<times> (string \<times> string option) list"

definition query_lower :: "string \<Rightarrow> string" where
  "query_lower q = strip (lower q)"

definition analyze_words :: "string list" where
  "analyze_words = [''analyze'', ''detail'', ''investigate'', ''what'', ''explain'', ''tell me about'']"

definition rca_phrases :: "string list" where
  "rca_phrases = [''root cause'', ''rca'', ''why is'', ''what caused'', ''investigate'']"

definition problem_words :: "string list" where
  "problem_words = [''problem'', ''problems'', ''alert'', ''alerts'', ''issue'', ''issues'', ''incident'']"

definition topology_words :: "string list" where
  "topology_words = [''topology'', ''dependencies'', ''architecture'', ''map'']"

definition listing_phrases :: "string list" where
  "listing_phrases = [''list services'', ''show services'', ''all services'',
                      ''list hosts'', ''show hosts'', ''all hosts'']"

definition metric_words :: "string list" where
  "metric_words = [''metric'', ''metrics'', ''performance'', ''usage'']"

definition deployment_words :: "string list" where
  "deployment_words = [''deploy'', ''deployment'', ''deployments'', ''release'', ''releases'',
                       ''change'', ''changes'']"

definition health_phrases :: "string list" where
  "health_phrases = [''health'', ''status'', ''overview'', ''summary'', ''how is'',
                     ''how'' @ sq @ ''s'', ''dashboard'']"

text \<open>The test of the first rule: a problem identifier and one of the analysis words.\<close>

definition analyze_rule :: "string \<Rightarrow> bool" where
  "analyze_rule q = (truthy (extract_problem_id q) \<and> any_in analyze_words (query_lower q))"

definition problem_status :: "string \<Rightarrow> string option" where
  "problem_status ql =
     (if py_in ''open'' ql then Some ''OPEN''
      else if py_in ''closed'' ql then Some ''CLOSED'' else None)"

definition problem_severity :: "string \<Rightarrow> string option" where
  "problem_severity ql =
     (if py_in ''critical'' ql \<or> py_in ''availability'' ql then Some ''AVAILABILITY''
      else if py_in ''error'' ql then Some ''ERROR''
      else if py_in ''performance'' ql \<or> py_in ''slow'' ql then Some ''PERFORMANCE''
      else None)"

definition parse_intent :: "string \<Rightarrow> pyerr + intent" where
  "parse_intent q =
    (let ql = query_lower q; problem_id = extract_problem_id q in
     if truthy problem_id \<and> any_in analyze_words ql then
       Inr (''analyze_problem'', [(''problem_id'', problem_id)])
     else if any_in rca_phrases ql then
       (let problem_id = extract_problem_id q;
            symptoms = (if \<not> truthy problem_id then Some q else None)
        in Inr (''root_cause_analysis'', [(''problem_id'', problem_id), (''symptoms'', symptoms)]))
     else if any_in problem_words ql then
       (case extract_time_range q of
          Inl e \<Rightarrow> Inl e
        | Inr time_range \<Rightarrow>
            Inr (''list_problems'',
                 [(''status'', problem_status ql), (''severity'', problem_severity ql),
                  (''time_range'', Some time_range)]))
     else if any_in topology_words ql then
       Inr (''get_topology'', [(''entity_type'', Some (or_else (extract_entity_type q) ''SERVICE''))])
     else if any_in listing_phrases ql then
       Inr (''get_topology'', [(''entity_type'', Some (or_else (extract_entity_type q) ''SERVICE''))])
     else
       (let metric_type = extract_metric_type q in
        if truthy metric_type \<or> any_in metric_words ql then
          (case extract_time_range q of
             Inl e \<Rightarrow> Inl e
           | Inr time_range \<Rightarrow>
               Inr (''query_metrics'',
                    [(''metric'', Some (or_else metric_type ''cpu'')),
                     (''entity_type'', extract_entity_type q),
                     (''time_range'', Some time_range)]))
        else if any_in deployment_words ql then
          (case extract_time_range q of
             Inl e \<Rightarrow> Inl e
           | Inr time_range \<Rightarrow> Inr (''get_deployments'', [(''time_range'', Some time_range)]))
        else if any_in health_phrases ql then Inr (''health_summary'', [])
        else Inr (''query'', [(''question'', Some q)])))"

section \<open>dynatrace\_client.py\<close>

text \<open>\<open>sep.join(xs)\<close>.\<close>

fun join :: "string \<Rightarrow> string list \<Rightarrow> string" where
  "join sep [] = []"
| "join sep [x] = x"
| "join sep (x # y # ys) = x @ sep @ join sep (y # ys)"

text \<open>\<open>d.get(key, default)\<close>, for a key whose value is \<open>None\<close> in the model when absent.\<close>

definition get_or :: "'a option \<Rightarrow> 'a \<Rightarrow> 'a" where
  "get_or x d = (case x of None \<Rightarrow> d | Some v \<Rightarrow> v)"

subsection \<open>The responses of the Problems API\<close>

record problem =
  problemId :: "string option"
  displayId :: "string option"
  title :: "string option"
  status :: "string option"
  severityLevel :: "string option"

text \<open>
  The JSON object that \<open>_make_request\<close> returns: the two keys that the client reads, and
  the rest of the object in the record's extension.
\<close>

record problems_response =
  totalCount :: "int option"
  problems :: "problem list option"

text \<open>A call of \<open>_make_request\<close>: method, endpoint and query parameters.\<close>

datatype request = Request string string "(string \<times> string) list"

subsection \<open>get\_problem\_details\<close>

definition default_fields :: string where
  "default_fields = ''+evidenceDetails,+impactAnalysis,+recentComments''"

definition is_display_id :: "string \<Rightarrow> bool" where
  "is_display_id problem_id = startswith (upper problem_id) ''P-''"

definition search_request :: "string \<Rightarrow> request" where
  "search_request display_id =
     Request ''GET'' ''/problems''
       [(''problemSelector'', ''displayId('' @ dq @ display_id @ dq @ '')''),
        (''pageSize'', ''1''),
        (''from'', ''now-90d'')]"

definition detail_request :: "string \<Rightarrow> string \<Rightarrow> request" where
  "detail_request problem_id fields' =
     Request ''GET'' (''/problems/'' @ problem_id)
       (if fields' \<noteq> [] then [(''fields'', fields')] else [])"

text \<open>
  \<open>make_request\<close> stands for the Dynatrace API behind \<open>_make_request\<close>: it answers a
  request with a JSON object or raises. The result of \<open>get_problem_details\<close> is the list
  of the requests it made, in order, and what it returned or raised.
\<close>

definition get_problem_details ::
  "(request \<Rightarrow> pyerr + 'a problems_response_scheme) \<Rightarrow> string \<Rightarrow> string \<Rightarrow>
     request list \<times> (pyerr + 'a problems_response_scheme)" where
  "get_problem_details make_request problem_id fields' =
    (if is_display_id problem_id then
       (let display_id = upper problem_id in
        case make_request (search_request display_id) of
          Inl e \<Rightarrow> ([search_request display_id], Inl e)
        | Inr search_result \<Rightarrow>
            (case get_or (problems search_result) [] of
               [] \<Rightarrow> ([search_request display_id],
                      Inl (ValueError (''Problem '' @ display_id @ '' not found'')))
             | p # _ \<Rightarrow>
                 (case problemId p of
                    None \<Rightarrow> ([search_request display_id],
                       Inl (ValueError (''Could not resolve internal ID for '' @ display_id)))
                  | Some internal_id \<Rightarrow>
                      if internal_id = [] then
                        ([search_request display_id],
                         Inl (ValueError (''Could not resolve internal ID for '' @ display_id)))
                      else ([search_request display_id, detail_request internal_id fields'],
                            make_request (detail_request internal_id fields')))))
     else ([detail_request problem_id fields'], make_request (detail_request problem_id fields')))"

subsection \<open>format\_problem\_list\<close>

definition no_problems_message :: string where
  "no_problems_message =
     [CHR 0xE2, CHR 0x9C, CHR 0x85] @ '' No problems found in the specified timeframe.''"

definition red_circle :: string where
  "red_circle = [CHR 0xF0, CHR 0x9F, CHR 0x94, CHR 0xB4]"

definition green_circle :: string where
  "green_circle = [CHR 0xF0, CHR 0x9F, CHR 0x9F, CHR 0xA2]"

definition problem_list_header :: "int \<Rightarrow> string" where
  "problem_list_header total' =
     ''# '' @ [CHR 0xF0, CHR 0x9F, CHR 0x94, CHR 0x8D] @ '' Dynatrace Problems ('' @
     show_int total' @ '' total)'' @ nl"

definition problem_line :: "'a problem_scheme \<Rightarrow> string" where
  "problem_line p =
     (if get_or (status p) ''UNKNOWN'' = ''OPEN'' then red_circle else green_circle) @
     '' **'' @ get_or (displayId p) [] @ ''** - '' @ get_or (title p) ''Unknown'' @
     '' ['' @ get_or (severityLevel p) [] @ '']''"

definition more_problems :: "int \<Rightarrow> string" where
  "more_problems total' = nl @ ''... and '' @ show_int (total' - 10) @ '' more problems''"

text \<open>The list \<open>output\<close> that \<open>format_problem_list\<close> builds when \<open>total\<close> is not 0.\<close>

definition problem_list_output :: "int \<Rightarrow> problem list \<Rightarrow> string list" where
  "problem_list_output total' ps =
     [problem_list_header total'] @ map problem_line (take 10 ps) @
     (if total' > 10 then [more_problems total'] else [])"

definition format_problem_list :: "'a problems_response_scheme \<Rightarrow> string" where
  "format_problem_list problems_response =
    (let total' = get_or (totalCount problems_response) 0;
         ps = get_or (problems problems_response) []
     in if total' = 0 then no_problems_message
        else join nl (problem_list_output total' ps))"

subsection \<open>format\_metrics\_data\<close>

text \<open>
  A value of a series is a JSON number or null. The numbers are Python's (\<open>int\<close> and
  \<open>float\<close>) and what is computed with them is done by built-ins of the interpreter, in
  floating point: the type \<open>'v\<close> of the numbers is left open and the built-ins that the
  function calls are parameters of the model,
  \<^item> \<open>fmt2f x\<close> for the format \<open>{x:.2f}\<close>,
  \<^item> \<open>py_min xs\<close> and \<open>py_max xs\<close> for \<open>min(xs)\<close> and \<open>max(xs)\<close>,
  \<^item> \<open>py_sum xs\<close> for \<open>sum(xs)\<close>,
  \<^item> \<open>py_div x n\<close> for \<open>x / n\<close>, where \<open>n\<close> is the length of a list.
\<close>

record 'v arithmetic =
  fmt2f :: "'v \<Rightarrow> string"
  py_min :: "'v list \<Rightarrow> 'v"
  py_max :: "'v list \<Rightarrow> 'v"
  py_sum :: "'v list \<Rightarrow> 'v"
  py_div :: "'v \<Rightarrow> nat \<Rightarrow> 'v"

record 'v series =
  dimensions :: "string list option"
  timestamps :: "int list option"
  series_values :: "'v option list option"

record 'v metric =
  metricId :: "string option"
  data :: "'v series list option"

record 'v metrics_response =
  result :: "'v metric list option"

text \<open>\<open>[v for v in values if v is not None]\<close>.\<close>

fun valid_values :: "'v option list \<Rightarrow> 'v list" where
  "valid_values [] = []"
| "valid_values (None # vs) = valid_values vs"
| "valid_values (Some v # vs) = v # valid_values vs"

text \<open>The lines for minimum, maximum and mean of a series, absent when no value is valid.\<close>

definition stats_lines :: "'v arithmetic \<Rightarrow> 'v option list \<Rightarrow> string list" where
  "stats_lines ar vs =
    (let valid = valid_values vs
     in if valid \<noteq> [] then
          [''**Range:** '' @ fmt2f ar (py_min ar valid) @ '' - '' @ fmt2f ar (py_max ar valid),
           ''**Average:** '' @ fmt2f ar (py_div ar (py_sum ar valid) (length valid))]
        else [])"

text \<open>
  \<open>hms\<close> stands for \<open>datetime.fromtimestamp(t / 1000).strftime("%H:%M:%S")\<close>, which
  depends on the time zone of the process.
\<close>

definition format_series :: "'v arithmetic \<Rightarrow> (int \<Rightarrow> string) \<Rightarrow> 'v series \<Rightarrow> string list" where
  "format_series ar hms s =
    (let dims = get_or (dimensions s) [];
         ts = get_or (timestamps s) [];
         vs = get_or (series_values s) []
     in (if dims \<noteq> [] then [''**Dimensions:** '' @ join '', '' dims] else []) @
        (if vs \<noteq> [] \<and> ts \<noteq> [] then
           (case last vs of
              None \<Rightarrow> []
            | Some latest_value \<Rightarrow>
                [''**Latest ('' @ hms (last ts) @ ''):** '' @ fmt2f ar latest_value]) @
           stats_lines ar vs
         else []) @
        [[]])"

definition format_metric :: "'v arithmetic \<Rightarrow> (int \<Rightarrow> string) \<Rightarrow> 'v metric \<Rightarrow> string list" where
  "format_metric ar hms m =
     (''## '' @ get_or (metricId m) ''Unknown'' @ nl) #
     concat (map (format_series ar hms) (take 5 (get_or (data m) [])))"

definition no_metrics_message :: string where
  "no_metrics_message = [CHR 0xF0, CHR 0x9F, CHR 0x93, CHR 0x8A] @ '' No metric data found.''"

definition metrics_header :: string where
  "metrics_header = ''# '' @ [CHR 0xF0, CHR 0x9F, CHR 0x93, CHR 0x8A] @ '' Metrics Data'' @ nl"

definition format_metrics_data ::
  "'v arithmetic \<Rightarrow> (int \<Rightarrow> string) \<Rightarrow> 'v metrics_response \<Rightarrow> string" where
  "format_metrics_data ar hms metrics_response =
    (let results = get_or (result metrics_response) []
     in if results = [] then no_metrics_message
        else join nl (metrics_header # concat (map (format_metric ar hms) results)))"

section \<open>dynatrace\_agent.py\<close>

subsection \<open>\_ai\_analyze\<close>

definition ai_full_prompt :: "string \<Rightarrow> string \<Rightarrow> string" where
  "ai_full_prompt prompt context =
     ''You are an expert SRE/DevOps engineer analyzing Dynatrace monitoring data.'' @ nl @
     ''Provide concise, actionable insights.'' @ nl @ nl @
     context @ nl @ nl @
     prompt"

definition rate_limit_notice :: string where
  "rate_limit_notice =
     [CHR 0xE2, CHR 0x9A, CHR 0xA0, CHR 0xEF, CHR 0xB8, CHR 0x8F] @
     '' AI analysis temporarily unavailable (rate limit). Dynatrace data shown above.''"

definition unavailable_notice :: string where
  "unavailable_notice =
     [CHR 0xE2, CHR 0x9A, CHR 0xA0, CHR 0xEF, CHR 0xB8, CHR 0x8F] @ '' AI analysis unavailable''"

definition fallback_models :: "string \<Rightarrow> string list" where
  "fallback_models self_model = [self_model, ''gemini-1.5-flash'', ''gemini-1.5-pro'']"

text \<open>
  What one call of \<open>generate_content\<close> does: it returns a response whose \<open>text\<close> is a
  string or \<open>None\<close>, or it raises an exception \<open>e\<close>, of which the source reads \<open>str(e)\<close>.
\<close>

datatype outcome = Response "string option" | Raises string

text \<open>
  The text of the exception that the \<open>try\<close> block catches, if any: \<open>response.text.strip()\<close>
  raises an AttributeError on \<open>None\<close>.
\<close>

fun caught :: "outcome \<Rightarrow> string + string" where
  "caught (Response (Some t)) = Inr (strip t)"
| "caught (Response None) =
     Inl (sq @ ''NoneType'' @ sq @ '' object has no attribute '' @ sq @ ''strip'' @ sq)"
| "caught (Raises e) = Inl e"

definition is_rate_limit :: "string \<Rightarrow> bool" where
  "is_rate_limit error_str = (py_in ''429'' error_str \<or> py_in ''RESOURCE_EXHAUSTED'' error_str)"

text \<open>
  The loop over \<open>models_to_try\<close>. \<open>generate i model contents\<close> is the outcome of the
  \<open>i\<close>-th call of \<open>generate_content\<close>; \<open>final\<close> is \<open>models_to_try[-1]\<close>. The result is
  the list of the models that were called and the string returned.
\<close>

fun try_models ::
  "(nat \<Rightarrow> string \<Rightarrow> string \<Rightarrow> outcome) \<Rightarrow> string \<Rightarrow> string \<Rightarrow> nat \<Rightarrow> string list \<Rightarrow>
     string list \<times> string" where
  "try_models generate contents final i [] = ([], unavailable_notice)"
| "try_models generate contents final i (model # models) =
    (case caught (generate i model contents) of
       Inr text \<Rightarrow> ([model], text)
     | Inl error_str \<Rightarrow>
         if is_rate_limit error_str then
           (if model \<noteq> final then
              (let (tried, r) = try_models generate contents final (Suc i) models
               in (model # tried, r))
            else ([model], rate_limit_notice))
         else ([model], ''AI analysis error: '' @ take 100 error_str))"

definition ai_analyze ::
  "(nat \<Rightarrow> string \<Rightarrow> string \<Rightarrow> outcome) \<Rightarrow> string \<Rightarrow> string \<Rightarrow> string \<Rightarrow> string list \<times> string" where
  "ai_analyze generate self_model prompt context =
    (let models_to_try = fallback_models self_model
     in try_models generate (ai_full_prompt prompt context) (last models_to_try) 0 models_to_try)"

subsection \<open>The prompts of the skills\<close>

text \<open>
  \<open>json.dumps\<close> belongs to the standard library. \<open>root_cause_analysis\<close>, \<open>query\<close> and
  \<open>get_health_summary\<close> call it once on the data they have collected: their prompts take
  the text that it returns. \<open>analyze_problem\<close> calls it on a slice of the evidence list:
  there the serializer is a parameter, \<open>dumps\<close>, applied to the slice.
\<close>

definition analyze_instruction :: string where
  "analyze_instruction =
     ''Based on this Dynatrace problem data, provide:'' @ nl @
     ''1. **Likely Root Cause** (1-2 sentences)'' @ nl @
     ''2. **Recommended Actions** (2-3 bullet points)'' @ nl @
     ''3. **Risk Assessment** (Low/Medium/High with brief explanation)''"

text \<open>
  The \<open>ai_context\<close> of \<open>analyze_problem\<close>. \<open>dumps xs\<close> stands for
  \<open>json.dumps(xs, indent=2)\<close>, and \<open>affected\<close> for \<open>len(affected_entities)\<close>.
\<close>

definition analyze_problem_context ::
  "('e list \<Rightarrow> string) \<Rightarrow> string option \<Rightarrow> string option \<Rightarrow> string option \<Rightarrow> nat \<Rightarrow> 'e list \<Rightarrow>
     string" where
  "analyze_problem_context dumps title' severity impact affected evidence_list =
     nl @
     ''Problem: '' @ get_or title' ''Unknown'' @ nl @
     ''Severity: '' @ get_or severity ''Unknown'' @ nl @
     ''Impact: '' @ get_or impact ''Unknown'' @ nl @
     ''Affected Entities: '' @ show_nat affected @ nl @
     ''Evidence Count: '' @ show_nat (length evidence_list) @ nl @ nl @
     ''Evidence Details:'' @ nl @
     (if evidence_list \<noteq> [] then dumps (take 3 evidence_list) else ''None'') @ nl"

text \<open>
  The \<open>ai_prompt\<close> of \<open>root_cause_analysis\<close>. \<open>context_json\<close> is
  \<open>json.dumps(context_data, indent=2, default=str)\<close>.
\<close>

definition rca_prompt_tail :: string where
  "rca_prompt_tail =
     nl @ nl @
     ''Provide a structured analysis with:'' @ nl @ nl @
     ''## '' @ [CHR 0xF0, CHR 0x9F, CHR 0x94, CHR 0x8D] @ '' Root Cause Analysis'' @ nl @ nl @
     ''### Primary Cause'' @ nl @
     ''[Identify the most likely root cause]'' @ nl @ nl @
     ''### Contributing Factors'' @ nl @
     ''[List secondary factors that may have contributed]'' @ nl @ nl @
     ''### Evidence Chain'' @ nl @
     ''[Connect the dots between symptoms and root cause]'' @ nl @ nl @
     ''## '' @ [CHR 0xF0, CHR 0x9F, CHR 0x93, CHR 0x8A] @ '' Impact Assessment'' @ nl @
     ''[Describe the scope and severity of impact]'' @ nl @ nl @
     ''## '' @ [CHR 0xF0, CHR 0x9F, CHR 0x9B, CHR 0xA0, CHR 0xEF, CHR 0xB8, CHR 0x8F] @
     '' Recommended Actions'' @ nl @ nl @
     ''### Immediate Actions (Next 15 minutes)'' @ nl @
     ''[List critical steps to mitigate]'' @ nl @ nl @
     ''### Short-term Actions (Next 24 hours)'' @ nl @
     ''[List follow-up remediation steps]'' @ nl @ nl @
     ''### Preventive Measures'' @ nl @
     ''[Suggest ways to prevent recurrence]'' @ nl @ nl @
     ''## '' @ [CHR 0xE2, CHR 0x9A, CHR 0xA0, CHR 0xEF, CHR 0xB8, CHR 0x8F] @
     '' Risk Assessment'' @ nl @
     ''[Rate overall risk and urgency]'' @ nl"

definition rca_prompt :: "string option \<Rightarrow> string \<Rightarrow> string" where
  "rca_prompt symptoms context_json =
     nl @
     ''Analyze the following Dynatrace monitoring data and provide a '' @
     ''comprehensive root cause analysis.'' @ nl @ nl @
     (if truthy symptoms then ''Symptoms reported: '' @ fmt_opt symptoms else []) @ nl @ nl @
     ''Monitoring Data:'' @ nl @
     take 4000 context_json @
     rca_prompt_tail"

text \<open>The \<open>ai_prompt\<close> of \<open>query\<close>, with the same \<open>context_json\<close>.\<close>

definition query_prompt :: "string \<Rightarrow> string \<Rightarrow> string" where
  "query_prompt question context_json =
     nl @
     ''Question: '' @ question @ nl @ nl @
     ''Available Dynatrace Data:'' @ nl @
     take 4000 context_json @ nl @ nl @
     ''Provide a helpful, conversational answer to the question based on the '' @
     ''monitoring data.'' @ nl @
     ''If the data doesn'' @ sq @ ''t contain enough information to fully answer '' @
     ''the question,'' @ nl @
     ''explain what data would be needed and provide what insights you can.'' @ nl"

definition health_instruction :: string where
  "health_instruction =
     ''Provide a brief 2-3 sentence executive summary of the environment '' @
     ''health status. Highlight any critical concerns or positive trends.''"

text \<open>
  The \<open>ai_context\<close> of \<open>get_health_summary\<close>. \<open>severity_json\<close> is
  \<open>json.dumps(severity_counts)\<close>.
\<close>

definition health_context :: "int \<Rightarrow> string \<Rightarrow> int \<Rightarrow> string" where
  "health_context open_count severity_json release_count =
     nl @
     ''Open Problems: '' @ show_int open_count @ nl @
     ''Severity Distribution: '' @ severity_json @ nl @
     ''Recent Deployments: '' @ show_int release_count @ nl"

subsection \<open>The reports of the skills that call \_ai\_analyze\<close>

text \<open>
  The end of each of the four skills, from the call of \<open>_ai_analyze\<close> on. For
  \<open>analyze_problem\<close> and \<open>get_health_summary\<close>, \<open>output\<close> is the list of lines that the
  skill has built from the Dynatrace data before the call; \<open>root_cause_analysis\<close> and
  \<open>query\<close> return what \<open>_ai_analyze\<close> returns.
\<close>

definition ai_analysis_heading :: string where
  "ai_analysis_heading = nl @ ''## '' @ [CHR 0xF0, CHR 0x9F, CHR 0xA4, CHR 0x96] @ '' AI Analysis'' @ nl"

definition ai_summary_heading :: string where
  "ai_summary_heading = ''## '' @ [CHR 0xF0, CHR 0x9F, CHR 0xA4, CHR 0x96] @ '' AI Summary''"

definition analyze_problem_report ::
  "(nat \<Rightarrow> string \<Rightarrow> string \<Rightarrow> outcome) \<Rightarrow> string \<Rightarrow> string list \<Rightarrow> string \<Rightarrow> string" where
  "analyze_problem_report generate self_model output ai_context =
    (let ai_analysis = snd (ai_analyze generate self_model analyze_instruction ai_context)
     in join nl (output @ [ai_analysis_heading, ai_analysis]))"

definition health_summary_report ::
  "(nat \<Rightarrow> string \<Rightarrow> string \<Rightarrow> outcome) \<Rightarrow> string \<Rightarrow> string list \<Rightarrow> string \<Rightarrow> string" where
  "health_summary_report generate self_model output ai_context =
    (let ai_summary = snd (ai_analyze generate self_model health_instruction ai_context)
     in join nl (output @ [ai_summary_heading, ai_summary]))"

definition root_cause_analysis_report ::
  "(nat \<Rightarrow> string \<Rightarrow> string \<Rightarrow> outcome) \<Rightarrow> string \<Rightarrow> string option \<Rightarrow> string \<Rightarrow> string" where
  "root_cause_analysis_report generate self_model symptoms context_json =
     snd (ai_analyze generate self_model (rca_prompt symptoms context_json) [])"

definition query_report ::
  "(nat \<Rightarrow> string \<Rightarrow> string \<Rightarrow> outcome) \<Rightarrow> string \<Rightarrow> string \<Rightarrow> string \<Rightarrow> string" where
  "query_report generate self_model question context_json =
     snd (ai_analyze generate self_model (query_prompt question context_json) [])"

subsection \<open>query\_metrics\<close>

definition metric_mappings :: "(string \<times> string) list" where
  "metric_mappings =
    [(''cpu'', ''builtin:host.cpu.usage:avg''),
     (''memory'', ''builtin:host.mem.usage:avg''),
     (''disk'', ''builtin:host.disk.usedPct:avg''),
     (''response_time'', ''builtin:service.response.time:avg''),
     (''error_rate'', ''builtin:service.errors.total.rate:avg''),
     (''throughput'', ''builtin:service.requestCount.total:avg''),
     (''availability'', ''builtin:host.availability:avg''),
     (''network'', ''builtin:host.net.nic.trafficIn:avg'')]"

text \<open>\<open>s.replace(" ", "_")\<close>.\<close>

definition spaces_to_underscores :: "string \<Rightarrow> string" where
  "spaces_to_underscores s = map (\<lambda>c. if c = CHR '' '' then CHR ''_'' else c) s"

definition metric_lower :: "string \<Rightarrow> string" where
  "metric_lower metric' = spaces_to_underscores (lower metric')"

text \<open>The keyword arguments with which \<open>query_metrics\<close> calls the client.\<close>

record metrics_query =
  metric_selector :: string
  entity_selector :: "string option"
  from_time :: string
  resolution :: string

definition query_metrics_call ::
  "string \<Rightarrow> string option \<Rightarrow> string option \<Rightarrow> string \<Rightarrow> metrics_query" where
  "query_metrics_call metric' entity_type entity_id time_range =
    \<lparr> metric_selector = get_or (map_of metric_mappings (metric_lower metric')) metric',
      entity_selector =
        (if truthy entity_id then Some (''entityId('' @ dq @ fmt_opt entity_id @ dq @ '')'')
         else if truthy entity_type then Some (''type('' @ dq @ fmt_opt entity_type @ dq @ '')'')
         else None),
      from_time = ''now-'' @ time_range,
      resolution = (if time_range \<in> set [''1h'', ''2h''] then ''10m'' else ''1h'') \<rparr>"

text \<open>
  The length of a time window in the words of the specification: a time range is a token
  \<open><n>h\<close> or \<open><n>d\<close>, of \<open>n\<close> hours or \<open>n\<close> days.
\<close>

definition spec_window_hours :: "string \<Rightarrow> nat option" where
  "spec_window_hours time_range =
    (if time_range = [] then None
     else
       (let n = butlast time_range; u = last time_range
        in case py_int (Some n) of
             Inl e \<Rightarrow> None
           | Inr k \<Rightarrow>
               if u = CHR ''h'' then Some k else if u = CHR ''d'' then Some (24 * k) else None))"

section \<open>Notions used in the proofs\<close>

text \<open>Lower-casing a matcher state.\<close>

definition lower_st :: "mstate \<Rightarrow> mstate" where
  "lower_st st = (lower (fst st), lower (fst (snd st)), map_option lower (snd (snd st)))"

text \<open>The text that a match consumed between two states.\<close>

definition consumed :: "mstate \<Rightarrow> mstate \<Rightarrow> string" where
  "consumed st st' = take (length (fst (snd st)) - length (fst (snd st'))) (fst (snd st))"

definition cap_ok :: "(string \<Rightarrow> bool) \<Rightarrow> string option \<Rightarrow> bool" where
  "cap_ok P g = (case g of None \<Rightarrow> True | Some u \<Rightarrow> P u)"

text \<open>Every group of the pattern captures a text that satisfies \<open>P\<close>.\<close>

fun grps :: "(string \<Rightarrow> bool) \<Rightarrow> rx \<Rightarrow> bool" where
  "grps P (Seq p q) = (grps P p \<and> grps P q)"
| "grps P (Opt p) = grps P p"
| "grps P (Star p) = grps P p"
| grps_Grp: "grps P (Grp p) = (\<forall>st st'. st' \<in> set (rx_match p st) \<longrightarrow> P (consumed st st'))"
| "grps P p = True"

declare grps_Grp [simp del]

text \<open>A pattern whose matches consume at least one character.\<close>

fun consuming :: "rx \<Rightarrow> bool" where
  "consuming (Chr c) = True"
| "consuming Dig = True"
| "consuming Spc = True"
| "consuming Idc = True"
| "consuming (Seq p q) = (consuming p \<or> consuming q)"
| "consuming (Grp p) = consuming p"
| "consuming p = False"

text \<open>A pattern whose matches all pass through a group.\<close>

fun sets_grp :: "rx \<Rightarrow> bool" where
  "sets_grp (Grp p) = True"
| "sets_grp (Seq p q) = (sets_grp p \<or> sets_grp q)"
| "sets_grp p = False"

definition digit_run :: "string \<Rightarrow> bool" where
  "digit_run u = (u \<noteq> [] \<and> list_all is_digit u)"

definition pattern_ok :: "rx \<times> formatter \<Rightarrow> bool" where
  "pattern_ok pf = (grps digit_run (fst pf) \<and> (snd pf = Weeks \<longrightarrow> sets_grp (fst pf)))"

section \<open>Example data\<close>

text \<open>
  Evidence items with the single key \<open>displayName\<close>, each given by its name.
  \<open>dumps_display_names\<close> is \<open>json.dumps(xs, indent=2)\<close> on a list of such items whose
  names are made of letters and digits (characters that the serializer copies as they are).
\<close>

definition dumps_display_name :: "string \<Rightarrow> string" where
  "dumps_display_name name =
     ''  {'' @ nl @
     ''    '' @ dq @ ''displayName'' @ dq @ '': '' @ dq @ name @ dq @ nl @
     ''  }''"

definition dumps_display_names :: "string list \<Rightarrow> string" where
  "dumps_display_names names =
     (if names = [] then ''[]''
      else ''['' @ nl @ join ('','' @ nl) (map dumps_display_name names) @ nl @ '']'')"

text \<open>
  The text that \<open>json.dumps(evidence_list[:3], indent=2)\<close> returns for a single evidence
  item whose only key, \<open>displayName\<close>, holds 4000 letters.
\<close>

definition long_evidence_json :: string where
  "long_evidence_json =
     ''['' @ nl @
     ''  {'' @ nl @
     ''    '' @ dq @ ''displayName'' @ dq @ '': '' @ dq @ replicate 4000 CHR ''a'' @ dq @ nl @
     ''  }'' @ nl @
     '']''"

text \<open>
  An arithmetic to run the model on: that of exact rationals. A number is the rational it
  denotes, and minimum, maximum, sum and quotient are the exact ones. This is not the
  arithmetic of the source, which rounds sums and quotients to the nearest \<open>float\<close>; the
  two give the same results where no rounding occurs, as on the series \<open>[10, null, 20]\<close>
  of the specification (10, 20, their sum 30 and its half 15 are \<open>float\<close>s).
  \<open>exact_fmt2f\<close> writes a rational with two decimals, rounding a half-way case to the
  even neighbour, as the format \<open>.2f\<close> does with the value of a \<open>float\<close>.
\<close>

definition round_half_even :: "rat \<Rightarrow> int" where
  "round_half_even x =
    (let f = \<lfloor>x\<rfloor>; d = x - of_int f
     in if d < 1 / 2 then f else if 1 / 2 < d then f + 1 else if even f then f else f + 1)"

definition exact_fmt2f :: "rat \<Rightarrow> string" where
  "exact_fmt2f x =
    (let n = nat (round_half_even (\<bar>x\<bar> * 100))
     in (if x < 0 then ''-'' else []) @ show_nat (n div 100) @ ''.'' @
        [ascii_digits ! ((n div 10) mod 10), ascii_digits ! (n mod 10)])"

definition exact :: "rat arithmetic" where
  "exact =
     \<lparr> fmt2f = exact_fmt2f,
       py_min = (\<lambda>xs. Min (set xs)),
       py_max = (\<lambda>xs. Max (set xs)),
       py_sum = sum_list,
       py_div = (\<lambda>x n. x / of_nat n) \<rparr>"

definition example_problem :: problem where
  "example_problem =
     \<lparr> problemId = Some ''-42_17V2'', displayId = Some ''P-1'', title = Some ''CPU saturation'',
       status = Some ''OPEN'', severityLevel = Some ''RESOURCE_CONTENTION'' \<rparr>"

definition unresolved_problem :: problem where
  "unresolved_problem = example_problem \<lparr> problemId := None \<rparr>"

text \<open>A model endpoint that is rate-limited for \<open>gemini-1.5-pro\<close> and answers for any other model.\<close>

definition pro_rate_limited :: "nat \<Rightarrow> string \<Rightarrow> string \<Rightarrow> outcome" where
  "pro_rate_limited i model contents =
     (if model = ''gemini-1.5-pro'' then Raises ''429 RESOURCE_EXHAUSTED'' else Response (Some ''ok''))"

section \<open>Lemmas\<close>

subsection \<open>Characters\<close>

lemma upper_letter:
  "c \<in> set ascii_upper \<Longrightarrow>
     lower_char c \<in> set ascii_lower \<and> \<not> is_digit c \<and> \<not> is_space c \<and> c \<noteq> CHR ''_'' \<and> c \<noteq> CHR ''-''"
  unfolding ascii_upper_def
  by (simp, elim disjE;
      simp add: lower_char_def ascii_upper_def ascii_lower_def is_digit_def is_space_def
        ascii_digits_def ascii_space_def)

lemma lower_letter:
  "c \<in> set ascii_lower \<Longrightarrow>
     c \<notin> set ascii_upper \<and> \<not> is_digit c \<and> \<not> is_space c \<and> c \<noteq> CHR ''_'' \<and> c \<noteq> CHR ''-''"
  unfolding ascii_lower_def
  by (simp, elim disjE;
      simp add: ascii_upper_def is_digit_def is_space_def ascii_digits_def ascii_space_def)

lemma lower_char_other: "c \<notin> set ascii_upper \<Longrightarrow> lower_char c = c"
proof -
  assume "c \<notin> set ascii_upper"
  moreover have "length ascii_upper = length ascii_lower"
    by (simp add: ascii_upper_def ascii_lower_def)
  ultimately have "map_of (zip ascii_upper ascii_lower) c = None"
    by simp
  then show ?thesis by (simp add: lower_char_def)
qed

lemma lower_char_idem [simp]: "lower_char (lower_char c) = lower_char c"
  by (cases "c \<in> set ascii_upper") (auto dest!: upper_letter lower_letter simp: lower_char_other)

lemma is_digit_lower_char [simp]: "is_digit (lower_char c) = is_digit c"
  by (cases "c \<in> set ascii_upper") (auto dest!: upper_letter lower_letter simp: lower_char_other)

lemma is_space_lower_char [simp]: "is_space (lower_char c) = is_space c"
  by (cases "c \<in> set ascii_upper") (auto dest!: upper_letter lower_letter simp: lower_char_other)

lemma is_alpha_lower_char [simp]: "is_alpha (lower_char c) = is_alpha c"
  by (cases "c \<in> set ascii_upper")
     (auto dest: upper_letter lower_letter simp: lower_char_other is_alpha_def)

lemma lower_char_underscore [simp]: "(lower_char c = CHR ''_'') = (c = CHR ''_'')"
  by (cases "c \<in> set ascii_upper") (auto dest!: upper_letter lower_letter simp: lower_char_other)

lemma lower_char_hyphen [simp]: "(lower_char c = CHR ''-'') = (c = CHR ''-'')"
  by (cases "c \<in> set ascii_upper") (auto dest!: upper_letter lower_letter simp: lower_char_other)

lemma is_word_lower_char [simp]: "is_word (lower_char c) = is_word c"
  by (simp add: is_word_def)

lemma lower_char_digit: "is_digit c \<Longrightarrow> lower_char c = c"
  by (cases "c \<in> set ascii_upper") (auto dest!: upper_letter simp: lower_char_other)

lemma lower_digits: "list_all is_digit u \<Longrightarrow> lower u = u"
  by (induction u) (auto simp: lower_def lower_char_digit)

lemma lower_idem [simp]: "lower (lower s) = lower s"
  by (simp add: lower_def)

subsection \<open>The matcher ignores case\<close>

lemma lower_simps [simp]:
  "lower [] = []" "lower (x # xs) = lower_char x # lower xs" "length (lower s) = length s"
  "take n (lower s) = lower (take n s)"
  by (simp_all add: lower_def take_map)

lemma lower_st_simp [simp]: "lower_st (b, r, g) = (lower b, lower r, map_option lower g)"
  by (simp add: lower_st_def)

lemma one_char_lower:
  "(\<And>x. P (lower_char x) = P x) \<Longrightarrow> one_char P (lower_st st) = map lower_st (one_char P st)"
  by (cases "(P, st)" rule: one_char.cases) auto

lemma at_boundary_lower: "at_boundary (lower b) (lower r) = at_boundary b r"
  by (cases b; cases r) (simp_all add: at_boundary_def)

lemma rx_match_lower: "rx_match p (lower_st st) = map lower_st (rx_match p st)"
proof (induction p st rule: rx_match.induct)
  case (7 p q st)
  have "rx_match (Seq p q) (lower_st st) = concat (map (\<lambda>s. rx_match q (lower_st s)) (rx_match p st))"
    by (simp add: "7.IH"(1) comp_def)
  also have "\<dots> = concat (map (\<lambda>s. map lower_st (rx_match q s)) (rx_match p st))"
    using "7.IH"(2) by (simp cong: map_cong)
  also have "\<dots> = map lower_st (rx_match (Seq p q) st)"
    by (simp add: map_concat comp_def)
  finally show ?case .
next
  case (9 p b r g)
  let ?f = "\<lambda>st'. if length (fst (snd st')) < length r then rx_match (Star p) st' else []"
  have IH1: "rx_match p (lower b, lower r, map_option lower g) = map lower_st (rx_match p (b, r, g))"
    using "9.IH"(1) by simp
  have "concat (map ?f (map lower_st (rx_match p (b, r, g)))) =
          concat (map (\<lambda>s. map lower_st (?f s)) (rx_match p (b, r, g)))"
    using "9.IH"(2) by (auto simp: comp_def lower_st_def intro!: arg_cong [where f = concat])
  then show ?case
    by (simp add: IH1 map_concat comp_def)
next
  case (10 p b r g)
  have IH: "rx_match p (lower b, lower r, map_option lower g) = map lower_st (rx_match p (b, r, g))"
    using "10.IH" by simp
  show ?case
    by (auto simp: IH)
next
  case (6 b r g)
  then show ?case by (simp add: at_boundary_lower)
qed (simp_all add: one_char_lower)

lemma search_from_lower:
  "search_from p (lower b) (lower r) = map_option (map_option lower) (search_from p b r)"
proof (induction r arbitrary: b)
  case Nil
  have "rx_match p (lower b, [], None) = map lower_st (rx_match p (b, [], None))"
    using rx_match_lower [of p "(b, [], None)"] by simp
  then show ?case
    by (cases "rx_match p (b, [], None)") (simp_all add: lower_st_def)
next
  case (Cons x xs)
  have "rx_match p (lower b, lower (x # xs), None) = map lower_st (rx_match p (b, x # xs, None))"
    using rx_match_lower [of p "(b, x # xs, None)"] by simp
  moreover have "search_from p (lower_char x # lower b) (lower xs) =
      map_option (map_option lower) (search_from p (x # b) xs)"
    using Cons.IH [of "x # b"] by simp
  ultimately show ?case
    by (cases "rx_match p (b, x # xs, None)") (simp_all add: lower_st_def)
qed

lemma re_search_lower: "re_search p (lower q) = map_option (map_option lower) (re_search p q)"
  using search_from_lower [of p "[]" q] by (simp add: re_search_def)

subsection \<open>What a match consumes and captures\<close>

lemma one_char_set:
  "st' \<in> set (one_char P st) \<Longrightarrow>
     \<exists>x. fst (snd st) = x # fst (snd st') \<and> fst st' = x # fst st \<and> snd (snd st') = snd (snd st) \<and> P x"
  by (cases "(P, st)" rule: one_char.cases) (auto split: if_splits)

lemma rx_match_rest:
  "st' \<in> set (rx_match p st) \<Longrightarrow>
     \<exists>u. fst (snd st) = u @ fst (snd st') \<and> fst st' = rev u @ fst st"
proof (induction p st arbitrary: st' rule: rx_match.induct)
  case (7 p q st)
  then obtain s where s: "s \<in> set (rx_match p st)" "st' \<in> set (rx_match q s)"
    by auto
  from "7.IH"(1) [OF s(1)] "7.IH"(2) [OF s(1) s(2)] show ?case
    by auto
next
  case (9 p b r g)
  then consider "st' = (b, r, g)"
    | s where "s \<in> set (rx_match p (b, r, g))" "length (fst (snd s)) < length r"
        "st' \<in> set (rx_match (Star p) s)"
    by (auto split: if_splits)
  then show ?case
  proof cases
    case 1
    then show ?thesis by simp
  next
    case 2
    from "9.IH"(1) [OF 2(1)] "9.IH"(2) [OF 2(1) 2(2) 2(3)] show ?thesis
      by auto
  qed
next
  case (10 p b r g)
  then obtain s where "s \<in> set (rx_match p (b, r, g))" "fst st' = fst s" "fst (snd st') = fst (snd s)"
    by auto
  with "10.IH" [of s] show ?case by auto
qed (auto dest!: one_char_set split: if_splits)

lemma rx_match_length:
  "st' \<in> set (rx_match p st) \<Longrightarrow> length (fst (snd st')) \<le> length (fst (snd st))"
  using rx_match_rest [of st' p st] by auto

lemma rx_match_consuming:
  "consuming p \<Longrightarrow> st' \<in> set (rx_match p st) \<Longrightarrow> length (fst (snd st')) < length (fst (snd st))"
proof (induction p arbitrary: st st')
  case (Seq p q)
  then obtain s where s: "s \<in> set (rx_match p st)" "st' \<in> set (rx_match q s)"
    by auto
  from Seq.prems(1) have "consuming p \<or> consuming q" by simp
  then show ?case
  proof
    assume "consuming p"
    from Seq.IH(1) [OF this s(1)] rx_match_length [OF s(2)] show ?thesis by simp
  next
    assume "consuming q"
    from Seq.IH(2) [OF this s(2)] rx_match_length [OF s(1)] show ?thesis by simp
  qed
next
  case (Grp p)
  obtain b r g where st: "st = (b, r, g)" by (cases st)
  with Grp.prems obtain s where s: "s \<in> set (rx_match p st)" "fst (snd st') = fst (snd s)"
    by auto
  from Grp.prems(1) have "consuming p" by simp
  from Grp.IH [OF this s(1)] s(2) show ?case by simp
qed (auto dest!: one_char_set split: if_splits)

lemma consumed_nonempty:
  "consuming p \<Longrightarrow> st' \<in> set (rx_match p st) \<Longrightarrow> consumed st st' \<noteq> []"
  using rx_match_consuming [of p st' st] by (auto simp: consumed_def)

lemma rx_match_cap:
  "st' \<in> set (rx_match p st) \<Longrightarrow> grps P p \<Longrightarrow> cap_ok P (snd (snd st)) \<Longrightarrow>
     cap_ok P (snd (snd st'))"
proof (induction p st arbitrary: st' rule: rx_match.induct)
  case (7 p q st)
  then obtain s where s: "s \<in> set (rx_match p st)" "st' \<in> set (rx_match q s)"
    by auto
  from "7.IH"(1) [OF s(1)] "7.IH"(2) [OF s(1) s(2)] "7.prems" show ?case
    by auto
next
  case (9 p b r g)
  then consider "st' = (b, r, g)"
    | s where "s \<in> set (rx_match p (b, r, g))" "length (fst (snd s)) < length r"
        "st' \<in> set (rx_match (Star p) s)"
    by (auto split: if_splits)
  then show ?case
  proof cases
    case 1
    with "9.prems" show ?thesis by simp
  next
    case 2
    from "9.IH"(1) [OF 2(1)] "9.IH"(2) [OF 2(1) 2(2) 2(3)] "9.prems" show ?thesis
      by auto
  qed
next
  case (10 p b r g)
  then obtain s where s: "s \<in> set (rx_match p (b, r, g))"
      "snd (snd st') = Some (consumed (b, r, g) s)"
    by (auto simp: consumed_def)
  from "10.prems"(2) s(1) have "P (consumed (b, r, g) s)"
    unfolding grps_Grp by blast
  with s(2) show ?case by (simp add: cap_ok_def)
qed (auto dest!: one_char_set split: if_splits)

lemma rx_match_sets:
  "st' \<in> set (rx_match p st) \<Longrightarrow> sets_grp p \<or> snd (snd st) \<noteq> None \<Longrightarrow> snd (snd st') \<noteq> None"
proof (induction p st arbitrary: st' rule: rx_match.induct)
  case (7 p q st)
  then obtain s where s: "s \<in> set (rx_match p st)" "st' \<in> set (rx_match q s)"
    by auto
  from "7.IH"(1) [OF s(1)] "7.IH"(2) [OF s(1) s(2)] "7.prems" show ?case
    by auto
next
  case (9 p b r g)
  then consider "st' = (b, r, g)"
    | s where "s \<in> set (rx_match p (b, r, g))" "length (fst (snd s)) < length r"
        "st' \<in> set (rx_match (Star p) s)"
    by (auto split: if_splits)
  then show ?case
  proof cases
    case 1
    with "9.prems" show ?thesis by simp
  next
    case 2
    from "9.IH"(1) [OF 2(1)] "9.IH"(2) [OF 2(1) 2(2) 2(3)] "9.prems" show ?thesis
      by auto
  qed
qed (auto dest!: one_char_set split: if_splits)

lemma search_from_first:
  "search_from p b r = Some g \<Longrightarrow> \<exists>b' r' st'. st' \<in> set (rx_match p (b', r', None)) \<and> snd (snd st') = g"
proof (induction r arbitrary: b)
  case Nil
  show ?case
  proof (cases "rx_match p (b, [], None)")
    case Nil
    with Nil.prems show ?thesis by simp
  next
    case (Cons st sts)
    with Nil.prems have "st \<in> set (rx_match p (b, [], None))" "snd (snd st) = g"
      by auto
    then show ?thesis by blast
  qed
next
  case (Cons x xs)
  show ?case
  proof (cases "rx_match p (b, x # xs, None)")
    case Nil
    with Cons show ?thesis by simp
  next
    case (Cons st sts)
    with Cons.prems have "st \<in> set (rx_match p (b, x # xs, None))" "snd (snd st) = g"
      by auto
    then show ?thesis by blast
  qed
qed

lemma re_search_cap: "re_search p q = Some g \<Longrightarrow> grps P p \<Longrightarrow> cap_ok P g"
  unfolding re_search_def
  by (drule search_from_first) (auto dest!: rx_match_cap [where P = P] simp: cap_ok_def)

lemma re_search_sets: "re_search p q = Some g \<Longrightarrow> sets_grp p \<Longrightarrow> g \<noteq> None"
  unfolding re_search_def
  by (drule search_from_first) (auto dest!: rx_match_sets)

lemma star_dig:
  "st' \<in> set (rx_match (Star Dig) (b, r, g)) \<Longrightarrow> \<exists>u. r = u @ fst (snd st') \<and> list_all is_digit u"
proof (induction r arbitrary: b)
  case Nil
  then show ?case by simp
next
  case (Cons x xs)
  show ?case
  proof (cases "is_digit x \<and> st' \<in> set (rx_match (Star Dig) (x # b, xs, g))")
    case True
    with Cons.IH [of "x # b"] obtain u where "xs = u @ fst (snd st')" "list_all is_digit u"
      by blast
    with True have "x # xs = (x # u) @ fst (snd st') \<and> list_all is_digit (x # u)"
      by simp
    then show ?thesis by blast
  next
    case False
    with Cons.prems have "st' = (b, x # xs, g)"
      by (auto split: if_splits)
    then show ?thesis by simp
  qed
qed

lemma plus_dig: "st' \<in> set (rx_match (many1 Dig) st) \<Longrightarrow> digit_run (consumed st st')"
proof -
  assume a: "st' \<in> set (rx_match (many1 Dig) st)"
  obtain b r g where st: "st = (b, r, g)" by (cases st)
  from a obtain s where s: "s \<in> set (one_char is_digit st)" "st' \<in> set (rx_match (Star Dig) s)"
    by (auto simp: many1_def)
  from one_char_set [OF s(1)] st obtain x where x: "r = x # fst (snd s)" "is_digit x"
    by auto
  obtain b2 r2 g2 where s2: "s = (b2, r2, g2)" by (cases s)
  from star_dig [of st' b2 r2 g2] s(2) s2 obtain u where u: "r2 = u @ fst (snd st')" "list_all is_digit u"
    by auto
  from x u s2 st have "consumed st st' = x # u"
    by (simp add: consumed_def)
  with x u show ?thesis by (simp add: digit_run_def)
qed

lemma grps_plus [simp]: "grps P (many1 p) = grps P p"
  by (simp add: many1_def)

lemma grps_seqs [simp]: "grps P (seqs ps) = list_all (grps P) ps"
  by (induction ps) (simp_all add: seqs_def)

lemma grps_lit [simp]: "grps P (lit s)"
  by (simp add: lit_def list_all_iff)

lemma grps_digit_run [simp]: "grps digit_run (Grp (many1 Dig))"
  unfolding grps_Grp using plus_dig by blast

lemma consuming_plus [simp]: "consuming (many1 p) = consuming p"
  by (simp add: many1_def)

lemma consuming_seqs [simp]: "consuming (seqs ps) = list_ex consuming ps"
  by (induction ps) (simp_all add: seqs_def)

lemma consuming_lit [simp]: "consuming (lit s) = (s \<noteq> [])"
  by (cases s) (simp_all add: lit_def seqs_def)

lemma grps_consuming: "consuming p \<Longrightarrow> grps (\<lambda>u. u \<noteq> []) (Grp p)"
  unfolding grps_Grp using consumed_nonempty by blast

lemma sets_grp_seqs [simp]: "sets_grp (seqs ps) = list_ex sets_grp ps"
  by (induction ps) (simp_all add: seqs_def)

subsection \<open>The groups of the patterns of the classifier\<close>

lemma first_group_cap:
  "first_group ps q = Some u \<Longrightarrow> list_all (grps P) ps \<Longrightarrow> P u"
proof (induction ps)
  case Nil
  then show ?case by simp
next
  case (Cons p ps)
  show ?case
  proof (cases "re_search p q")
    case None
    with Cons show ?thesis by simp
  next
    case (Some g)
    with Cons.prems re_search_cap [of p q g P] show ?thesis
      by (simp add: cap_ok_def)
  qed
qed

lemma problem_id_patterns_grps: "list_all (grps (\<lambda>u. u \<noteq> [])) problem_id_patterns"
  by (simp add: problem_id_patterns_def grps_consuming)

lemma extract_problem_id_nonempty: "extract_problem_id q = Some u \<Longrightarrow> u \<noteq> []"
  unfolding extract_problem_id_def
  using first_group_cap [OF _ problem_id_patterns_grps] by blast

lemma truthy_extract_problem_id: "truthy (extract_problem_id q) = (extract_problem_id q \<noteq> None)"
  by (cases "extract_problem_id q") (auto dest: extract_problem_id_nonempty)

lemma time_patterns_ok: "list_all pattern_ok time_patterns"
  by (simp add: time_patterns_def pattern_ok_def hour_unit_def day_unit_def week_unit_def)

lemma py_int_digit_run: "digit_run u \<Longrightarrow> \<exists>n. py_int (Some u) = Inr n"
  by (simp add: py_int_def digit_run_def)

lemma run_formatter_ok:
  "pattern_ok (p, f) \<Longrightarrow> re_search p q = Some g \<Longrightarrow> \<exists>t. run_formatter f g = Inr t"
proof (cases f)
  case Weeks
  assume "pattern_ok (p, f)" "re_search p q = Some g"
  with Weeks re_search_sets [of p q g] re_search_cap [of p q g digit_run]
  obtain u where "g = Some u" "digit_run u"
    by (auto simp: pattern_ok_def cap_ok_def)
  with py_int_digit_run [of u] Weeks show ?thesis by auto
qed simp_all

lemma first_formatted_ok: "list_all pattern_ok ps \<Longrightarrow> \<exists>t. first_formatted ps q = Inr t"
proof (induction ps)
  case Nil
  then show ?case by simp
next
  case (Cons pf ps)
  obtain p f where pf: "pf = (p, f)" by (cases pf)
  show ?case
  proof (cases "re_search p q")
    case None
    with Cons pf show ?thesis by simp
  next
    case (Some g)
    with Cons.prems pf run_formatter_ok [of p f q g] show ?thesis by simp
  qed
qed

lemma extract_time_range_returns: "\<exists>t. extract_time_range q = Inr t"
  unfolding extract_time_range_def by (rule first_formatted_ok [OF time_patterns_ok])

lemma first_formatted_lower:
  "list_all pattern_ok ps \<Longrightarrow> first_formatted ps (lower q) = first_formatted ps q"
proof (induction ps)
  case Nil
  then show ?case by simp
next
  case (Cons pf ps)
  obtain p f where pf: "pf = (p, f)" by (cases pf)
  show ?case
  proof (cases "re_search p q")
    case None
    with Cons pf show ?thesis by (simp add: re_search_lower)
  next
    case (Some g)
    with Cons.prems pf re_search_cap [of p q g digit_run] have "cap_ok digit_run g"
      by (simp add: pattern_ok_def)
    then have "map_option lower g = g"
      by (cases g) (simp_all add: cap_ok_def digit_run_def lower_digits)
    with Some pf show ?thesis by (simp add: re_search_lower)
  qed
qed

lemma extract_time_range_lower: "extract_time_range (lower q) = extract_time_range q"
  unfolding extract_time_range_def by (rule first_formatted_lower [OF time_patterns_ok])

subsection \<open>Substring tests\<close>

lemma py_in_sublist: "py_in sub s = sublist sub s"
  by (induction s) (simp_all add: sublist_Cons_right)

lemma py_in_trans: "py_in t w \<Longrightarrow> py_in w s \<Longrightarrow> py_in t s"
  unfolding py_in_sublist by (rule sublist_order.order_trans)

lemma any_in_member: "t \<in> set ts \<Longrightarrow> py_in t s \<Longrightarrow> any_in ts s"
  by (auto simp: any_in_def list_ex_iff)

lemma dropWhile_keeps:
  assumes "\<not> P (hd w)" "w \<noteq> []"
  shows "\<exists>a'. dropWhile P (a @ w @ b) = a' @ w @ b"
proof (cases "\<forall>x \<in> set a. P x")
  case True
  with assms have "dropWhile P (a @ w @ b) = [] @ w @ b"
    by (cases w) (simp_all add: dropWhile_append)
  then show ?thesis by blast
next
  case False
  then have "dropWhile P (a @ w @ b) = dropWhile P a @ w @ b"
    by (auto simp: dropWhile_append)
  then show ?thesis by blast
qed

lemma py_in_strip:
  assumes "w \<noteq> []" "\<not> is_space (hd w)" "\<not> is_space (last w)"
  shows "py_in w (strip s) = py_in w s"
proof
  assume "py_in w (strip s)"
  moreover have "sublist (strip s) s"
  proof -
    have "suffix (dropWhile is_space s) s"
      by (rule suffix_dropWhile)
    moreover have "prefix (strip s) (dropWhile is_space s)"
      unfolding strip_def prefix_def
      using suffix_dropWhile [of is_space "rev (dropWhile is_space s)"]
      by (metis rev_append rev_rev_ident suffix_def)
    ultimately show ?thesis
      by (metis prefix_imp_sublist suffix_imp_sublist sublist_order.order_trans)
  qed
  ultimately show "py_in w s"
    unfolding py_in_sublist by (rule sublist_order.order_trans)
next
  assume "py_in w s"
  then obtain a b where s: "s = a @ w @ b"
    by (auto simp: py_in_sublist sublist_def)
  from dropWhile_keeps [of is_space w a b] assms obtain a' where
    a': "dropWhile is_space s = a' @ w @ b"
    unfolding s by blast
  have "\<not> is_space (hd (rev w))" "rev w \<noteq> []"
    using assms by (simp_all add: hd_rev)
  from dropWhile_keeps [where P = is_space and w = "rev w" and a = "rev b" and b = "rev a'"] this
  obtain b' where "dropWhile is_space (rev b @ rev w @ rev a') = b' @ rev w @ rev a'"
    by blast
  then have "strip s = a' @ w @ rev b'"
    by (simp add: strip_def a')
  then show "py_in w (strip s)"
    by (auto simp: py_in_sublist sublist_def)
qed

lemma any_in_strip:
  assumes "list_all (\<lambda>w. w \<noteq> [] \<and> \<not> is_space (hd w) \<and> \<not> is_space (last w)) ws"
  shows "any_in ws (strip s) = any_in ws s"
  using assms by (induction ws) (simp_all add: any_in_def py_in_strip)

lemma rca_phrases_query_lower: "any_in rca_phrases (query_lower q) = any_in rca_phrases (lower q)"
  unfolding query_lower_def
  by (rule any_in_strip) (simp add: rca_phrases_def is_space_def ascii_space_def)

lemma analyze_words_query_lower: "any_in analyze_words (query_lower q) = any_in analyze_words (lower q)"
  unfolding query_lower_def
  by (rule any_in_strip) (simp add: analyze_words_def is_space_def ascii_space_def)

lemma parse_intent_analyze:
  "analyze_rule q \<Longrightarrow> parse_intent q = Inr (''analyze_problem'', [(''problem_id'', extract_problem_id q)])"
  by (simp add: parse_intent_def analyze_rule_def Let_def)

lemma parse_intent_rca:
  "\<not> analyze_rule q \<Longrightarrow> any_in rca_phrases (query_lower q) \<Longrightarrow>
     parse_intent q = Inr (''root_cause_analysis'',
       [(''problem_id'', extract_problem_id q),
        (''symptoms'', if truthy (extract_problem_id q) then None else Some q)])"
  by (simp add: parse_intent_def analyze_rule_def Let_def)

subsection \<open>The loop over the time patterns\<close>

lemma first_formatted_none:
  "\<forall>pf \<in> set ps. re_search (fst pf) q = None \<Longrightarrow> first_formatted ps q = Inr ''24h''"
  by (induction ps) auto

lemma first_formatted_nth:
  "i < length ps \<Longrightarrow> \<forall>j<i. re_search (fst (ps ! j)) q = None \<Longrightarrow>
     re_search (fst (ps ! i)) q = Some g \<Longrightarrow>
     first_formatted ps q = run_formatter (snd (ps ! i)) g"
proof (induction ps arbitrary: i)
  case Nil
  then show ?case by simp
next
  case (Cons pf ps)
  obtain p f where pf: "pf = (p, f)" by (cases pf)
  show ?case
  proof (cases i)
    case 0
    with Cons.prems pf show ?thesis by simp
  next
    case (Suc k)
    with Cons.prems have "re_search p q = None"
      using pf by auto
    moreover from Suc Cons.prems have "first_formatted ps q = run_formatter (snd (ps ! k)) g"
      by (intro Cons.IH) auto
    ultimately show ?thesis
      using pf Suc by simp
  qed
qed

subsection \<open>The values of a series that are not null\<close>

lemma valid_values_Some [simp]: "valid_values (map Some xs) = xs"
  by (induction xs) simp_all

lemma set_valid_values: "set (valid_values vs) = {v. Some v \<in> set vs}"
  by (induction vs rule: valid_values.induct) auto

lemma valid_values_filter: "valid_values vs = map the (filter (\<lambda>v. v \<noteq> None) vs)"
  by (induction vs rule: valid_values.induct) simp_all

subsection \<open>Substrings of a concatenation\<close>

lemma py_in_refl: "py_in x x"
  by (simp add: py_in_sublist)

lemma py_in_left: "py_in x a \<Longrightarrow> py_in x (a @ b)"
  unfolding py_in_sublist sublist_def by (metis append.assoc)

lemma py_in_right: "py_in x b \<Longrightarrow> py_in x (a @ b)"
  unfolding py_in_sublist sublist_def by (metis append.assoc)

lemmas py_in_append = py_in_refl py_in_left py_in_right

lemma py_in_ai_full_prompt: "py_in ctx (ai_full_prompt prompt ctx)"
  unfolding ai_full_prompt_def by (fast intro: py_in_append)

lemma py_in_analyze_problem_context:
  assumes "ev \<noteq> []"
  shows "py_in (dumps (take 3 ev)) (analyze_problem_context dumps t s i a ev)"
proof -
  have e: "(if ev \<noteq> [] then dumps (take 3 ev) else ''None'') = dumps (take 3 ev)"
    using assms by simp
  show ?thesis
    unfolding analyze_problem_context_def e by (fast intro: py_in_append)
qed

subsection \<open>The loop over the models\<close>

lemma try_models_other_failure:
  "caught (generate i model contents) = Inl e \<Longrightarrow> \<not> is_rate_limit e \<Longrightarrow>
     try_models generate contents final i (model # models) =
       ([model], ''AI analysis error: '' @ take 100 e)"
  by simp

lemma try_models_retry:
  "caught (generate i model contents) = Inl e \<Longrightarrow> is_rate_limit e \<Longrightarrow> model \<noteq> final \<Longrightarrow>
     try_models generate contents final i (model # models) =
       (model # fst (try_models generate contents final (Suc i) models),
        snd (try_models generate contents final (Suc i) models))"
  by (simp add: case_prod_beta)

lemma try_models_final:
  "caught (generate i model contents) = Inl e \<Longrightarrow> is_rate_limit e \<Longrightarrow> model = final \<Longrightarrow>
     try_models generate contents final i (model # models) = ([model], rate_limit_notice)"
  by simp

lemma try_models_answer:
  "caught (generate i model contents) = Inr text \<Longrightarrow>
     try_models generate contents final i (model # models) = ([model], text)"
  by simp

text \<open>
  The loop always returns from inside: the list of models is not empty and its last entry
  cannot be skipped. What it returns is an answer, the notice, or an error text with at
  most 100 characters of the exception.
\<close>

lemma try_models_result:
  "models \<noteq> [] \<Longrightarrow> last models = final \<Longrightarrow>
     snd (try_models generate contents final i models) = rate_limit_notice \<or>
     (\<exists>t. snd (try_models generate contents final i models) = strip t) \<or>
     (\<exists>e. snd (try_models generate contents final i models) = ''AI analysis error: '' @ take 100 e)"
proof (induction models arbitrary: i)
  case Nil
  then show ?case by simp
next
  case (Cons model models)
  show ?case
  proof (cases "caught (generate i model contents)")
    case (Inr answer)
    then obtain t where "answer = strip t"
      by (cases "generate i model contents" rule: caught.cases) auto
    with Inr show ?thesis by auto
  next
    case (Inl e)
    show ?thesis
    proof (cases "is_rate_limit e \<and> model \<noteq> final")
      case True
      with Cons.prems have "models \<noteq> []" "last models = final"
        by (auto split: if_splits)
      from Cons.IH [OF this, of "Suc i"] Inl True show ?thesis
        by (simp add: case_prod_beta)
    next
      case False
      with Inl show ?thesis by auto
    qed
  qed
qed

lemma ai_analyze_result:
  "snd (ai_analyze generate self_model prompt ctx) = rate_limit_notice \<or>
   (\<exists>t. snd (ai_analyze generate self_model prompt ctx) = strip t) \<or>
   (\<exists>e. snd (ai_analyze generate self_model prompt ctx) = ''AI analysis error: '' @ take 100 e)"
  unfolding ai_analyze_def Let_def
  by (rule try_models_result) (simp_all add: fallback_models_def)

subsection \<open>The reports keep the lines built before the call\<close>

lemma join_append:
  "xs \<noteq> [] \<Longrightarrow> ys \<noteq> [] \<Longrightarrow> join sep (xs @ ys) = join sep xs @ sep @ join sep ys"
proof (induction sep xs rule: join.induct)
  case (2 sep x)
  then show ?case by (cases ys) simp_all
qed simp_all

lemma analyze_problem_report_base:
  "output \<noteq> [] \<Longrightarrow>
     prefix (join nl output) (analyze_problem_report generate self_model output ai_context)"
  by (simp add: analyze_problem_report_def Let_def join_append)

lemma health_summary_report_base:
  "output \<noteq> [] \<Longrightarrow>
     prefix (join nl output) (health_summary_report generate self_model output ai_context)"
  by (simp add: health_summary_report_def Let_def join_append)

section \<open>The claims\<close>

text \<open>
  C1. Rule priority of the classifier. A query whose lower-cased text contains one of the
  root-cause phrases and one of the problem words, and which fails the analyze-problem
  rule, is classified as \<open>root_cause_analysis\<close> (with the identifier, or else the query
  as symptoms) and never as \<open>list_problems\<close>. A query with a problem identifier whose
  lower-cased text contains \<open>investigate\<close> is classified as \<open>analyze_problem\<close> with
  that identifier, and not as \<open>root_cause_analysis\<close>: the analyze-problem rule comes first.
\<close>

theorem rule_priority:
  "(any_in rca_phrases (lower q) \<and> any_in [''problem'', ''alert'', ''issue'', ''incident''] (lower q) \<and>
      \<not> analyze_rule q \<longrightarrow>
        parse_intent q = Inr (''root_cause_analysis'',
          [(''problem_id'', extract_problem_id q),
           (''symptoms'', if truthy (extract_problem_id q) then None else Some q)]) \<and>
        (\<forall>params. parse_intent q \<noteq> Inr (''list_problems'', params))) \<and>
   (extract_problem_id q \<noteq> None \<and> py_in ''investigate'' (lower q) \<longrightarrow>
        parse_intent q = Inr (''analyze_problem'', [(''problem_id'', extract_problem_id q)]) \<and>
        (\<forall>params. parse_intent q \<noteq> Inr (''root_cause_analysis'', params)))"
proof (intro conjI impI)
  assume a: "any_in rca_phrases (lower q) \<and>
    any_in [''problem'', ''alert'', ''issue'', ''incident''] (lower q) \<and> \<not> analyze_rule q"
  then have "any_in rca_phrases (query_lower q)"
    by (simp add: rca_phrases_query_lower)
  with a show rca: "parse_intent q = Inr (''root_cause_analysis'',
          [(''problem_id'', extract_problem_id q),
           (''symptoms'', if truthy (extract_problem_id q) then None else Some q)])"
    by (simp add: parse_intent_rca)
  then show "\<forall>params. parse_intent q \<noteq> Inr (''list_problems'', params)"
    by simp
next
  assume a: "extract_problem_id q \<noteq> None \<and> py_in ''investigate'' (lower q)"
  then have "any_in analyze_words (lower q)"
    by (intro any_in_member [of "''investigate''"]) (simp_all add: analyze_words_def)
  with a have "analyze_rule q"
    by (simp add: analyze_rule_def truthy_extract_problem_id analyze_words_query_lower)
  then show an: "parse_intent q = Inr (''analyze_problem'', [(''problem_id'', extract_problem_id q)])"
    by (rule parse_intent_analyze)
  then show "\<forall>params. parse_intent q \<noteq> Inr (''root_cause_analysis'', params)"
    by simp
qed

theorem rule_priority_witness:
  "any_in rca_phrases (lower ''why is there a problem'') \<and>
   any_in [''problem'', ''alert'', ''issue'', ''incident''] (lower ''why is there a problem'') \<and>
   \<not> analyze_rule ''why is there a problem'' \<and>
   parse_intent ''why is there a problem'' =
     Inr (''root_cause_analysis'',
          [(''problem_id'', None), (''symptoms'', Some ''why is there a problem'')]) \<and>
   extract_problem_id ''investigate P-12345'' \<noteq> None \<and>
   py_in ''investigate'' (lower ''investigate P-12345'') \<and>
   parse_intent ''investigate P-12345'' = Inr (''analyze_problem'', [(''problem_id'', Some ''P-12345'')])"
proof -
  have h1: "any_in rca_phrases (lower ''why is there a problem'') \<and>
      any_in [''problem'', ''alert'', ''issue'', ''incident''] (lower ''why is there a problem'') \<and>
      \<not> analyze_rule ''why is there a problem''"
    by code_simp
  have e1: "extract_problem_id ''why is there a problem'' = None"
    by code_simp
  have e2: "extract_problem_id ''investigate P-12345'' = Some ''P-12345''"
    by code_simp
  have h2: "py_in ''investigate'' (lower ''investigate P-12345'')"
    by code_simp
  have ne: "extract_problem_id ''investigate P-12345'' \<noteq> None"
    by (simp only: e2 option.distinct not_False_eq_True)
  have "parse_intent ''why is there a problem'' =
     Inr (''root_cause_analysis'',
          [(''problem_id'', extract_problem_id ''why is there a problem''),
           (''symptoms'', if truthy (extract_problem_id ''why is there a problem'') then None
              else Some ''why is there a problem'')])"
    using rule_priority [of "''why is there a problem''"] h1 by blast
  then have r1: "parse_intent ''why is there a problem'' =
     Inr (''root_cause_analysis'',
          [(''problem_id'', None), (''symptoms'', Some ''why is there a problem'')])"
    by (simp only: e1 truthy.simps if_False)
  have "parse_intent ''investigate P-12345'' =
      Inr (''analyze_problem'', [(''problem_id'', extract_problem_id ''investigate P-12345'')])"
    using rule_priority [of "''investigate P-12345''"] ne h2 by blast
  then have r2: "parse_intent ''investigate P-12345'' =
      Inr (''analyze_problem'', [(''problem_id'', Some ''P-12345'')])"
    by (simp only: e2)
  from h1 r1 ne h2 r2 show ?thesis
    by blast
qed

text \<open>
  C2. The query \<open>Show me open problems from last 24 hours\<close> is classified as
  \<open>list_problems\<close> with status \<open>OPEN\<close>, no severity and time range \<open>24h\<close>.
\<close>

theorem open_problems_last_24_hours:
  "parse_intent ''Show me open problems from last 24 hours'' =
     Inr (''list_problems'',
          [(''status'', Some ''OPEN''), (''severity'', None), (''time_range'', Some ''24h'')])"
  by code_simp

text \<open>
  C3. Time-range extraction: \<open>last 2 hours\<close> and \<open>past 2 hours\<close> give \<open>2h\<close>, and
  \<open>last 1 week\<close> gives \<open>7d\<close>. There are nine patterns; a query that none of them
  matches gets the default \<open>24h\<close>. Matching ignores case: two ASCII queries that are
  equal up to the case of their letters get the same result. The patterns are tried in
  their fixed order: the result is that of the first pattern of the list that matches,
  wherever the matches lie in the text.
\<close>

theorem time_range_extraction:
  "extract_time_range ''last 2 hours'' = Inr ''2h'' \<and>
   extract_time_range ''past 2 hours'' = Inr ''2h'' \<and>
   extract_time_range ''last 1 week'' = Inr ''7d'' \<and>
   length time_patterns = 9 \<and>
   ((\<forall>pf \<in> set time_patterns. re_search (fst pf) q = None) \<longrightarrow> extract_time_range q = Inr ''24h'') \<and>
   (is_ascii q \<and> is_ascii q' \<and> lower q = lower q' \<longrightarrow>
      extract_time_range q = extract_time_range q') \<and>
   (i < length time_patterns \<and> (\<forall>j<i. re_search (fst (time_patterns ! j)) q = None) \<and>
      re_search (fst (time_patterns ! i)) q = Some g \<longrightarrow>
        extract_time_range q = run_formatter (snd (time_patterns ! i)) g)"
proof (intro conjI impI)
  show "extract_time_range ''last 2 hours'' = Inr ''2h''" by code_simp
  show "extract_time_range ''past 2 hours'' = Inr ''2h''" by code_simp
  show "extract_time_range ''last 1 week'' = Inr ''7d''" by code_simp
  show "length time_patterns = 9" by (simp add: time_patterns_def)
next
  assume "\<forall>pf \<in> set time_patterns. re_search (fst pf) q = None"
  then show "extract_time_range q = Inr ''24h''"
    unfolding extract_time_range_def by (rule first_formatted_none)
next
  assume "is_ascii q \<and> is_ascii q' \<and> lower q = lower q'"
  then have "lower q = lower q'"
    by simp
  then show "extract_time_range q = extract_time_range q'"
    using extract_time_range_lower [of q] extract_time_range_lower [of q'] by simp
next
  assume "i < length time_patterns \<and> (\<forall>j<i. re_search (fst (time_patterns ! j)) q = None) \<and>
      re_search (fst (time_patterns ! i)) q = Some g"
  then show "extract_time_range q = run_formatter (snd (time_patterns ! i)) g"
    unfolding extract_time_range_def by (intro first_formatted_nth) simp_all
qed

theorem time_range_extraction_witness:
  "list_all (\<lambda>pf. re_search (fst pf) ''any issues'' = None) time_patterns \<and>
   extract_time_range ''any issues'' = Inr ''24h'' \<and>
   is_ascii ''Alerts of the LAST 3 Days'' \<and> is_ascii ''alerts of the last 3 days'' \<and>
   lower ''Alerts of the LAST 3 Days'' = lower ''alerts of the last 3 days'' \<and>
   extract_time_range ''Alerts of the LAST 3 Days'' = Inr ''3d'' \<and>
   re_search (fst (time_patterns ! 6)) ''3 days ago, in the last 2 hours'' = Some (Some ''3'') \<and>
   re_search (fst (time_patterns ! 0)) ''3 days ago, in the last 2 hours'' = Some (Some ''2'') \<and>
   extract_time_range ''3 days ago, in the last 2 hours'' = Inr ''2h''"
proof -
  have n: "list_all (\<lambda>pf. re_search (fst pf) ''any issues'' = None) time_patterns"
    by code_simp
  then have none: "\<forall>pf \<in> set time_patterns. re_search (fst pf) ''any issues'' = None"
    by (simp add: list_all_iff)
  have asc: "is_ascii ''Alerts of the LAST 3 Days''" "is_ascii ''alerts of the last 3 days''"
    by code_simp+
  have low: "lower ''Alerts of the LAST 3 Days'' = lower ''alerts of the last 3 days''"
    by code_simp
  have l3: "extract_time_range ''alerts of the last 3 days'' = Inr ''3d''"
    by code_simp
  have s6: "re_search (fst (time_patterns ! 6)) ''3 days ago, in the last 2 hours'' = Some (Some ''3'')"
    by code_simp
  have s0: "re_search (fst (time_patterns ! 0)) ''3 days ago, in the last 2 hours'' = Some (Some ''2'')"
    by code_simp
  have f0: "run_formatter (snd (time_patterns ! 0)) (Some ''2'') = Inr ''2h''"
    by code_simp
  have "extract_time_range ''any issues'' = Inr ''24h''"
    using time_range_extraction [where q = "''any issues''"] none by blast
  moreover have "extract_time_range ''Alerts of the LAST 3 Days'' =
      extract_time_range ''alerts of the last 3 days''"
    using time_range_extraction [where q = "''Alerts of the LAST 3 Days''"
        and q' = "''alerts of the last 3 days''"] asc low by blast
  then have "extract_time_range ''Alerts of the LAST 3 Days'' = Inr ''3d''"
    by (simp only: l3)
  moreover have "0 < length time_patterns"
    by (simp add: time_patterns_def)
  then have "extract_time_range ''3 days ago, in the last 2 hours'' =
      run_formatter (snd (time_patterns ! 0)) (Some ''2'')"
    using time_range_extraction [where q = "''3 days ago, in the last 2 hours''" and i = 0
        and g = "Some ''2''"] s0 by blast
  then have "extract_time_range ''3 days ago, in the last 2 hours'' = Inr ''2h''"
    by (simp only: f0)
  ultimately show ?thesis
    using n asc low s6 s0 by blast
qed

text \<open>
  C4, as amended. \<open>root_cause_analysis\<close> and \<open>query\<close> embed in their prompt the first
  4000 characters of the serialized data, so that the prompt is at most 4000 characters
  longer than the prompt for empty data. \<open>_ai_analyze\<close> itself embeds context and prompt
  in full. The context of \<open>analyze_problem\<close> contains in full the serialization of the
  first three evidence items, and depends on the evidence list through these items and
  the length of the list only; the context of \<open>get_health_summary\<close> contains the
  serialized severity counts in full.
\<close>

theorem prompt_context_budget:
  "py_in (take 4000 j) (rca_prompt symptoms j) \<and>
   length (rca_prompt symptoms j) \<le> length (rca_prompt symptoms []) + 4000 \<and>
   length (ai_full_prompt (rca_prompt symptoms j) []) \<le>
     length (ai_full_prompt (rca_prompt symptoms []) []) + 4000 \<and>
   py_in (take 4000 j) (query_prompt question j) \<and>
   length (query_prompt question j) \<le> length (query_prompt question []) + 4000 \<and>
   length (ai_full_prompt (query_prompt question j) []) \<le>
     length (ai_full_prompt (query_prompt question []) []) + 4000 \<and>
   py_in ctx (ai_full_prompt prompt ctx) \<and>
   py_in prompt (ai_full_prompt prompt ctx) \<and>
   (ev \<noteq> [] \<longrightarrow> py_in (dumps (take 3 ev)) (analyze_problem_context dumps t s i a ev)) \<and>
   (length ev = length ev' \<and> take 3 ev = take 3 ev' \<longrightarrow>
      analyze_problem_context dumps t s i a ev = analyze_problem_context dumps t s i a ev') \<and>
   py_in j (health_context open_count j release_count)"
proof (intro conjI impI)
  show "py_in (take 4000 j) (rca_prompt symptoms j)"
    unfolding rca_prompt_def by (fast intro: py_in_append)
  show "py_in (take 4000 j) (query_prompt question j)"
    unfolding query_prompt_def by (fast intro: py_in_append)
  show "py_in ctx (ai_full_prompt prompt ctx)"
    by (rule py_in_ai_full_prompt)
  show "py_in prompt (ai_full_prompt prompt ctx)"
    unfolding ai_full_prompt_def by (fast intro: py_in_append)
  show "py_in j (health_context open_count j release_count)"
    unfolding health_context_def by (fast intro: py_in_append)
  show "length (rca_prompt symptoms j) \<le> length (rca_prompt symptoms []) + 4000"
    by (simp add: rca_prompt_def)
  show "length (query_prompt question j) \<le> length (query_prompt question []) + 4000"
    by (simp add: query_prompt_def)
  show "length (ai_full_prompt (rca_prompt symptoms j) []) \<le>
     length (ai_full_prompt (rca_prompt symptoms []) []) + 4000"
    by (simp add: ai_full_prompt_def rca_prompt_def)
  show "length (ai_full_prompt (query_prompt question j) []) \<le>
     length (ai_full_prompt (query_prompt question []) []) + 4000"
    by (simp add: ai_full_prompt_def query_prompt_def)
next
  assume "ev \<noteq> []"
  then show "py_in (dumps (take 3 ev)) (analyze_problem_context dumps t s i a ev)"
    by (rule py_in_analyze_problem_context)
next
  assume eq: "length ev = length ev' \<and> take 3 ev = take 3 ev'"
  then have "ev = [] \<longleftrightarrow> ev' = []"
    by (metis length_0_conv)
  with eq show "analyze_problem_context dumps t s i a ev = analyze_problem_context dumps t s i a ev'"
    by (simp add: analyze_problem_context_def)
qed

theorem prompt_context_budget_witness:
  "[''a'', ''b'', ''c'', ''d''] \<noteq> [] \<and>
   py_in (dumps_display_names (take 3 [''a'', ''b'', ''c'', ''d'']))
     (analyze_problem_context dumps_display_names None None None 0 [''a'', ''b'', ''c'', ''d'']) \<and>
   length [''a'', ''b'', ''c'', ''d''] = length [''a'', ''b'', ''c'', ''e''] \<and>
   take 3 [''a'', ''b'', ''c'', ''d''] = take 3 [''a'', ''b'', ''c'', ''e''] \<and>
   analyze_problem_context dumps_display_names None None None 0 [''a'', ''b'', ''c'', ''d''] =
     analyze_problem_context dumps_display_names None None None 0 [''a'', ''b'', ''c'', ''e'']"
proof -
  have ne: "[''a'', ''b'', ''c'', ''d''] \<noteq> []"
    by simp
  have len: "length [''a'', ''b'', ''c'', ''d''] = length [''a'', ''b'', ''c'', ''e'']"
    by simp
  have tk: "take 3 [''a'', ''b'', ''c'', ''d''] = take 3 [''a'', ''b'', ''c'', ''e'']"
    by simp
  from prompt_context_budget [where ev = "[''a'', ''b'', ''c'', ''d'']"
      and ev' = "[''a'', ''b'', ''c'', ''e'']" and dumps = dumps_display_names
      and t = None and s = None and i = None and a = 0] ne len tk
  show ?thesis
    by blast
qed

text \<open>
  The claim C4 as stated fails for \<open>analyze_problem\<close>: for one evidence item with a
  long name the context handed to \<open>_ai_analyze\<close> has more than 4000 characters, and the
  combined prompt contains the whole serialization.
\<close>

theorem analyze_problem_context_over_budget:
  "dumps_display_names (take 3 [replicate 4000 CHR ''a'']) = long_evidence_json \<and>
   4000 < length long_evidence_json \<and>
   4000 < length (analyze_problem_context dumps_display_names (Some ''CPU saturation'')
                    (Some ''RESOURCE_CONTENTION'') (Some ''INFRASTRUCTURE'') 1
                    [replicate 4000 CHR ''a'']) \<and>
   py_in long_evidence_json
     (ai_full_prompt analyze_instruction
        (analyze_problem_context dumps_display_names (Some ''CPU saturation'')
           (Some ''RESOURCE_CONTENTION'') (Some ''INFRASTRUCTURE'') 1
           [replicate 4000 CHR ''a'']))"
proof -
  let ?ev = "[replicate 4000 CHR ''a'']"
  let ?c = "analyze_problem_context dumps_display_names (Some ''CPU saturation'')
           (Some ''RESOURCE_CONTENTION'') (Some ''INFRASTRUCTURE'') 1 ?ev"
  have d: "dumps_display_names (take 3 ?ev) = long_evidence_json"
    by (simp add: dumps_display_names_def dumps_display_name_def long_evidence_json_def)
  have l: "4000 < length long_evidence_json"
    by (simp add: long_evidence_json_def)
  have "py_in (dumps_display_names (take 3 ?ev)) ?c"
    by (rule py_in_analyze_problem_context) simp
  then have j: "py_in long_evidence_json ?c"
    by (simp only: d)
  moreover have "py_in ?c (ai_full_prompt analyze_instruction ?c)"
    by (rule py_in_ai_full_prompt)
  ultimately have "py_in long_evidence_json (ai_full_prompt analyze_instruction ?c)"
    by (rule py_in_trans)
  moreover have "length long_evidence_json \<le> length ?c"
    using j by (simp only: py_in_sublist sublist_length_le)
  ultimately show ?thesis
    using d l by simp
qed

text \<open>
  C5. Construction of the metric query. A metric name whose lower-cased form, with spaces
  replaced by underscores, is a key of the table of eight friendly names is replaced by
  the selector of the table (\<open>cpu\<close> by \<open>builtin:host.cpu.usage:avg\<close>); any other name
  is passed on as it is. As amended: the resolution is \<open>10m\<close> exactly when the time range
  is the token \<open>1h\<close> or the token \<open>2h\<close>, and \<open>1h\<close> for every other token.
\<close>

theorem metric_query_construction:
  "(map_of metric_mappings (metric_lower m) = Some sel \<longrightarrow>
      metric_selector (query_metrics_call m et eid tr) = sel) \<and>
   (map_of metric_mappings (metric_lower m) = None \<longrightarrow>
      metric_selector (query_metrics_call m et eid tr) = m) \<and>
   map fst metric_mappings =
     [''cpu'', ''memory'', ''disk'', ''response_time'', ''error_rate'', ''throughput'',
      ''availability'', ''network''] \<and>
   map_of metric_mappings ''cpu'' = Some ''builtin:host.cpu.usage:avg'' \<and>
   resolution (query_metrics_call m et eid tr) = (if tr = ''1h'' \<or> tr = ''2h'' then ''10m'' else ''1h'')"
  by (simp add: query_metrics_call_def get_or_def metric_mappings_def)

theorem metric_query_construction_witness:
  "map_of metric_mappings (metric_lower ''Response Time'') = Some ''builtin:service.response.time:avg'' \<and>
   metric_selector (query_metrics_call ''Response Time'' None None ''24h'') =
     ''builtin:service.response.time:avg'' \<and>
   map_of metric_mappings (metric_lower ''builtin:host.cpu.idle'') = None \<and>
   metric_selector (query_metrics_call ''builtin:host.cpu.idle'' None None ''24h'') =
     ''builtin:host.cpu.idle''"
proof -
  have a: "map_of metric_mappings (metric_lower ''Response Time'') =
      Some ''builtin:service.response.time:avg''"
    by code_simp
  have b: "map_of metric_mappings (metric_lower ''builtin:host.cpu.idle'') = None"
    by code_simp
  have "metric_selector (query_metrics_call ''Response Time'' None None ''24h'') =
     ''builtin:service.response.time:avg''"
    using metric_query_construction [where m = "''Response Time''"
        and sel = "''builtin:service.response.time:avg''"] a by blast
  moreover have "metric_selector (query_metrics_call ''builtin:host.cpu.idle'' None None ''24h'') =
     ''builtin:host.cpu.idle''"
    using metric_query_construction [where m = "''builtin:host.cpu.idle''"] b by blast
  ultimately show ?thesis
    using a b by blast
qed

text \<open>
  The claim C5 as stated fails on the resolution: for the time range \<open>2h\<close>, a window of
  two hours and so not shorter than two hours, the resolution is \<open>10m\<close>.
\<close>

theorem resolution_two_hours:
  "\<not> (\<forall>m et eid tr h. spec_window_hours tr = Some h \<and> \<not> h < 2 \<longrightarrow>
         resolution (query_metrics_call m et eid tr) = ''1h'')"
proof
  assume a: "\<forall>m et eid tr h. spec_window_hours tr = Some h \<and> \<not> h < 2 \<longrightarrow>
         resolution (query_metrics_call m et eid tr) = ''1h''"
  have w: "spec_window_hours ''2h'' = Some 2" by code_simp
  have "resolution (query_metrics_call ''cpu'' None None ''2h'') = ''10m''"
    by (simp add: query_metrics_call_def)
  moreover from a w have "resolution (query_metrics_call ''cpu'' None None ''2h'') = ''1h''"
    by (metis less_irrefl)
  ultimately show False by simp
qed

text \<open>
  C6. Resolution of a display identifier. An identifier that begins with \<open>P-\<close> is a
  display identifier (the test of the code ignores case). For a display identifier the
  first request is the search for \<open>displayId\<close> from \<open>now-90d\<close>; when the search returns
  no problem, or a first problem without an internal \<open>problemId\<close>, the call raises a
  ValueError and the search is the only request made; otherwise the details are fetched
  with the internal identifier. Any other identifier is fetched directly.
\<close>

theorem display_id_resolution:
  "(startswith pid ''P-'' \<longrightarrow> is_display_id pid) \<and>
   search_request d =
     Request ''GET'' ''/problems''
       [(''problemSelector'', ''displayId('' @ dq @ d @ dq @ '')''),
        (''pageSize'', ''1''), (''from'', ''now-90d'')] \<and>
   (is_display_id pid \<longrightarrow>
      (\<exists>rest. fst (get_problem_details mr pid f) = search_request (upper pid) # rest)) \<and>
   (is_display_id pid \<and> mr (search_request (upper pid)) = Inr res \<and> get_or (problems res) [] = [] \<longrightarrow>
      get_problem_details mr pid f =
        ([search_request (upper pid)], Inl (ValueError (''Problem '' @ upper pid @ '' not found'')))) \<and>
   (is_display_id pid \<and> mr (search_request (upper pid)) = Inr res \<and>
      get_or (problems res) [] = p # ps \<and> \<not> truthy (problemId p) \<longrightarrow>
      get_problem_details mr pid f =
        ([search_request (upper pid)],
         Inl (ValueError (''Could not resolve internal ID for '' @ upper pid)))) \<and>
   (is_display_id pid \<and> mr (search_request (upper pid)) = Inr res \<and>
      get_or (problems res) [] = p # ps \<and> problemId p = Some internal_id \<and> internal_id \<noteq> [] \<longrightarrow>
      get_problem_details mr pid f =
        ([search_request (upper pid), detail_request internal_id f],
         mr (detail_request internal_id f))) \<and>
   (\<not> is_display_id pid \<longrightarrow>
      get_problem_details mr pid f = ([detail_request pid f], mr (detail_request pid f)))"
proof -
  have "upper_char CHR ''P'' = CHR ''P''" "upper_char CHR ''-'' = CHR ''-''"
    by (simp_all add: upper_char_def ascii_upper_def ascii_lower_def)
  then have "startswith pid ''P-'' \<longrightarrow> is_display_id pid"
    by (auto simp: startswith_def is_display_id_def prefix_def upper_def)
  moreover have "is_display_id pid \<longrightarrow>
      (\<exists>rest. fst (get_problem_details mr pid f) = search_request (upper pid) # rest)"
    by (auto simp: get_problem_details_def Let_def split: sum.splits list.splits option.splits)
  moreover have "\<not> truthy (problemId p) \<longleftrightarrow> problemId p = None \<or> problemId p = Some []"
    by (cases "problemId p") auto
  ultimately show ?thesis
    by (auto simp: get_problem_details_def Let_def search_request_def)
qed

theorem display_id_resolution_witness:
  "startswith ''P-99999'' ''P-'' \<and> is_display_id ''P-99999'' \<and>
   get_problem_details (\<lambda>r. Inr \<lparr> totalCount = Some 0, problems = Some [] \<rparr>) ''P-99999''
       default_fields =
     ([search_request ''P-99999''], Inl (ValueError ''Problem P-99999 not found'')) \<and>
   get_problem_details (\<lambda>r. Inr \<lparr> totalCount = Some 1, problems = Some [unresolved_problem] \<rparr>)
       ''P-99999'' default_fields =
     ([search_request ''P-99999''],
      Inl (ValueError ''Could not resolve internal ID for P-99999'')) \<and>
   get_problem_details (\<lambda>r. Inr \<lparr> totalCount = Some 1, problems = Some [example_problem] \<rparr>)
       ''P-1'' default_fields =
     ([search_request ''P-1'', detail_request ''-42_17V2'' default_fields],
      Inr \<lparr> totalCount = Some 1, problems = Some [example_problem] \<rparr>) \<and>
   \<not> is_display_id ''-42_17V2'' \<and>
   get_problem_details (\<lambda>r. Inl (HTTPError ''404'')) ''-42_17V2'' default_fields =
     ([detail_request ''-42_17V2'' default_fields],
      (Inl (HTTPError ''404'') :: pyerr + problems_response))"
proof -
  have s: "startswith ''P-99999'' ''P-''" by code_simp
  have u: "upper ''P-99999'' = ''P-99999''" "upper ''P-1'' = ''P-1''" by code_simp+
  have d1: "is_display_id ''P-1''" by code_simp
  have d2: "\<not> is_display_id ''-42_17V2''" by code_simp
  have i: "problemId example_problem = Some ''-42_17V2''" "\<not> truthy (problemId unresolved_problem)"
    by (simp_all add: example_problem_def unresolved_problem_def)
  note t = display_id_resolution [where f = default_fields]
  have d: "is_display_id ''P-99999''"
    using t [where pid = "''P-99999''"] s by blast
  have "get_problem_details (\<lambda>r. Inr \<lparr> totalCount = Some 0, problems = Some [] \<rparr>) ''P-99999''
       default_fields =
     ([search_request (upper ''P-99999'')],
      Inl (ValueError (''Problem '' @ upper ''P-99999'' @ '' not found'')))"
    using t [where pid = "''P-99999''" and res = "\<lparr> totalCount = Some 0, problems = Some [] \<rparr>"
        and mr = "\<lambda>r. Inr \<lparr> totalCount = Some 0, problems = Some [] \<rparr>"] d
    by (simp add: get_or_def)
  moreover have "get_problem_details
       (\<lambda>r. Inr \<lparr> totalCount = Some 1, problems = Some [unresolved_problem] \<rparr>)
       ''P-99999'' default_fields =
     ([search_request (upper ''P-99999'')],
      Inl (ValueError (''Could not resolve internal ID for '' @ upper ''P-99999'')))"
    using t [where pid = "''P-99999''"
        and res = "\<lparr> totalCount = Some 1, problems = Some [unresolved_problem] \<rparr>"
        and mr = "\<lambda>r. Inr \<lparr> totalCount = Some 1, problems = Some [unresolved_problem] \<rparr>"
        and p = unresolved_problem and ps = "[]"] d i(2)
    by (simp add: get_or_def)
  moreover have "get_problem_details
       (\<lambda>r. Inr \<lparr> totalCount = Some 1, problems = Some [example_problem] \<rparr>)
       ''P-1'' default_fields =
     ([search_request (upper ''P-1''), detail_request ''-42_17V2'' default_fields],
      Inr \<lparr> totalCount = Some 1, problems = Some [example_problem] \<rparr>)"
    using t [where pid = "''P-1''"
        and res = "\<lparr> totalCount = Some 1, problems = Some [example_problem] \<rparr>"
        and mr = "\<lambda>r. Inr \<lparr> totalCount = Some 1, problems = Some [example_problem] \<rparr>"
        and p = example_problem and ps = "[]" and internal_id = "''-42_17V2''"] d1 i(1)
    by (simp add: get_or_def)
  moreover have "get_problem_details (\<lambda>r. Inl (HTTPError ''404'')) ''-42_17V2'' default_fields =
     ([detail_request ''-42_17V2'' default_fields],
      (Inl (HTTPError ''404'') :: pyerr + problems_response))"
    using t [where pid = "''-42_17V2''" and mr = "\<lambda>r. Inl (HTTPError ''404'')"] d2
    by blast
  ultimately show ?thesis
    using s d d2 by (simp add: u)
qed

text \<open>
  C7. With \<open>gemini-1.5-pro\<close> configured as the model, the list of models is
  \<open>gemini-1.5-pro\<close>, \<open>gemini-1.5-flash\<close>, \<open>gemini-1.5-pro\<close>. A rate-limit failure of
  the first call then returns the notice at once, because the test for the last model
  compares names: \<open>gemini-1.5-flash\<close>, which would have answered, is never called. With
  another model configured, a rate-limited call is followed by a call of the next model.
  When every call is rate-limited, the report of \<open>root_cause_analysis\<close> is the notice
  alone, whatever the data.
\<close>

theorem rate_limit_without_retry:
  "fallback_models ''gemini-1.5-pro'' = [''gemini-1.5-pro'', ''gemini-1.5-flash'', ''gemini-1.5-pro''] \<and>
   ai_analyze pro_rate_limited ''gemini-1.5-pro'' prompt context =
     ([''gemini-1.5-pro''], rate_limit_notice) \<and>
   ai_analyze pro_rate_limited ''gemini-1.5-flash'' prompt context = ([''gemini-1.5-flash''], ''ok'') \<and>
   ai_analyze (\<lambda>i model contents. Raises ''429 RESOURCE_EXHAUSTED'') ''gemini-1.5-flash'' prompt context =
     ([''gemini-1.5-flash'', ''gemini-1.5-flash'', ''gemini-1.5-pro''], rate_limit_notice) \<and>
   root_cause_analysis_report (\<lambda>i model contents. Raises ''429 RESOURCE_EXHAUSTED'')
       ''gemini-1.5-flash'' symptoms context_json =
     rate_limit_notice"
proof -
  have r: "is_rate_limit ''429 RESOURCE_EXHAUSTED''" by code_simp
  have s: "strip ''ok'' = ''ok''" by code_simp
  show ?thesis
    by (simp add: ai_analyze_def fallback_models_def pro_rate_limited_def
        root_cause_analysis_report_def r s)
qed

text \<open>
  C8. Problem-list formatting. With \<open>totalCount\<close> 0 (or absent) the result is the fixed
  message whatever the list of problems holds. With \<open>totalCount\<close> 15 and 15 problems the
  output is the header, the lines of the first 10 problems and the entry
  \<open>... and 5 more problems\<close>.
\<close>

theorem problem_list_formatting:
  "(totalCount r = Some 0 \<or> totalCount r = None \<longrightarrow>
      format_problem_list r = no_problems_message \<and>
      no_problems_message =
        [CHR 0xE2, CHR 0x9C, CHR 0x85] @ '' No problems found in the specified timeframe.'') \<and>
   (totalCount r = Some 15 \<and> problems r = Some ps \<and> length ps = 15 \<longrightarrow>
      format_problem_list r =
        join nl ([problem_list_header 15] @ map problem_line (take 10 ps) @
                 [nl @ ''... and 5 more problems'']) \<and>
      length (map problem_line (take 10 ps)) = 10)"
proof -
  have "show_int 5 = ''5''" by code_simp
  then have "more_problems 15 = nl @ ''... and 5 more problems''"
    by (simp add: more_problems_def nl_def)
  then show ?thesis
    by (auto simp: format_problem_list_def get_or_def problem_list_output_def no_problems_message_def)
qed

theorem problem_list_formatting_witness:
  "format_problem_list \<lparr> totalCount = Some 0, problems = Some (replicate 15 example_problem) \<rparr> =
     no_problems_message \<and>
   length (replicate 15 example_problem) = 15 \<and>
   format_problem_list \<lparr> totalCount = Some 15, problems = Some (replicate 15 example_problem) \<rparr> =
     join nl ([problem_list_header 15] @ map problem_line (take 10 (replicate 15 example_problem)) @
              [nl @ ''... and 5 more problems''])"
  using problem_list_formatting
      [of "\<lparr> totalCount = Some 0, problems = Some (replicate 15 example_problem) \<rparr>"]
    problem_list_formatting
      [of "\<lparr> totalCount = Some 15, problems = Some (replicate 15 example_problem) \<rparr>"
          "replicate 15 example_problem"]
  by simp

text \<open>
  C9. Metric formatting leaves null values out of the aggregates. The values that enter
  them are the non-null values of the series, in their order; the lines for range and
  average are those of the series without its nulls: the range line holds the minimum and
  the maximum of the non-null values and the average line their sum divided by their
  number, each in the format \<open>.2f\<close>; a series without a non-null value has neither line.
  This holds whatever the arithmetic of the numbers. On the series \<open>[10, null, 20]\<close>,
  where the arithmetic of the source is exact, the range is \<open>10.00 - 20.00\<close> and the
  average \<open>15.00\<close>.
\<close>

theorem metric_null_exclusion:
  "valid_values vs = map the (filter (\<lambda>v. v \<noteq> None) vs) \<and>
   set (valid_values vs) = {v. Some v \<in> set vs} \<and>
   stats_lines ar vs = stats_lines ar (map Some (valid_values vs)) \<and>
   (valid_values vs \<noteq> [] \<longrightarrow>
      stats_lines ar vs =
        [''**Range:** '' @ fmt2f ar (py_min ar (valid_values vs)) @ '' - '' @
           fmt2f ar (py_max ar (valid_values vs)),
         ''**Average:** '' @
           fmt2f ar (py_div ar (py_sum ar (valid_values vs)) (length (valid_values vs)))]) \<and>
   (valid_values vs = [] \<longrightarrow> stats_lines ar vs = []) \<and>
   valid_values [Some x, None, Some y] = [x, y] \<and>
   stats_lines exact [Some 10, None, Some 20] =
     [''**Range:** 10.00 - 20.00'', ''**Average:** 15.00''] \<and>
   format_series exact hms
       \<lparr> dimensions = None, timestamps = Some [t1, t2, t3],
         series_values = Some [Some 10, None, Some 20] \<rparr> =
     [''**Latest ('' @ hms t3 @ ''):** 20.00'', ''**Range:** 10.00 - 20.00'',
      ''**Average:** 15.00'', []] \<and>
   format_metrics_data exact hms
       \<lparr> result = Some [\<lparr> metricId = Some ''builtin:host.cpu.usage'',
           data = Some [\<lparr> dimensions = None, timestamps = Some [t1, t2, t3],
                         series_values = Some [Some 10, None, Some 20] \<rparr>] \<rparr>] \<rparr> =
     join nl [metrics_header, ''## builtin:host.cpu.usage'' @ nl,
              ''**Latest ('' @ hms t3 @ ''):** 20.00'', ''**Range:** 10.00 - 20.00'',
              ''**Average:** 15.00'', []]"
proof -
  have ex: "stats_lines exact [Some 10, None, Some 20] =
      [''**Range:** 10.00 - 20.00'', ''**Average:** 15.00'']"
    by code_simp
  have f20: "fmt2f exact 20 = ''20.00''"
    by code_simp
  have "stats_lines ar vs = stats_lines ar (map Some (valid_values vs))"
    by (simp add: stats_lines_def)
  moreover have "valid_values vs \<noteq> [] \<longrightarrow>
      stats_lines ar vs =
        [''**Range:** '' @ fmt2f ar (py_min ar (valid_values vs)) @ '' - '' @
           fmt2f ar (py_max ar (valid_values vs)),
         ''**Average:** '' @
           fmt2f ar (py_div ar (py_sum ar (valid_values vs)) (length (valid_values vs)))]"
    by (simp add: stats_lines_def Let_def)
  moreover have "valid_values vs = [] \<longrightarrow> stats_lines ar vs = []"
    by (simp add: stats_lines_def)
  moreover have "valid_values [Some x, None, Some y] = [x, y]"
    by simp
  moreover have fs: "format_series exact hms
       \<lparr> dimensions = None, timestamps = Some [t1, t2, t3],
         series_values = Some [Some 10, None, Some 20] \<rparr> =
     [''**Latest ('' @ hms t3 @ ''):** 20.00'', ''**Range:** 10.00 - 20.00'',
      ''**Average:** 15.00'', []]"
    by (simp add: format_series_def get_or_def ex f20)
  moreover have "format_metrics_data exact hms
       \<lparr> result = Some [\<lparr> metricId = Some ''builtin:host.cpu.usage'',
           data = Some [\<lparr> dimensions = None, timestamps = Some [t1, t2, t3],
                         series_values = Some [Some 10, None, Some 20] \<rparr>] \<rparr>] \<rparr> =
     join nl [metrics_header, ''## builtin:host.cpu.usage'' @ nl,
              ''**Latest ('' @ hms t3 @ ''):** 20.00'', ''**Range:** 10.00 - 20.00'',
              ''**Average:** 15.00'', []]"
    by (simp add: format_metrics_data_def format_metric_def get_or_def fs)
  ultimately show ?thesis
    using ex set_valid_values [of vs] valid_values_filter [of vs] by blast
qed

theorem metric_null_exclusion_witness:
  "valid_values [Some 10, None, Some (20 :: rat)] \<noteq> [] \<and>
   stats_lines exact [Some 10, None, Some 20] =
     [''**Range:** '' @ fmt2f exact (py_min exact (valid_values [Some 10, None, Some 20])) @
        '' - '' @ fmt2f exact (py_max exact (valid_values [Some 10, None, Some 20])),
      ''**Average:** '' @
        fmt2f exact (py_div exact (py_sum exact (valid_values [Some 10, None, Some 20]))
                       (length (valid_values [Some 10, None, Some (20 :: rat)])))] \<and>
   valid_values [None, None :: rat option] = [] \<and> stats_lines exact [None, None] = []"
proof -
  have v: "valid_values [Some 10, None, Some (20 :: rat)] \<noteq> []"
    by simp
  have e: "valid_values [None, None :: rat option] = []"
    by simp
  note some = metric_null_exclusion [where vs = "[Some 10, None, Some 20]" and ar = exact,
      THEN conjunct2, THEN conjunct2, THEN conjunct2, THEN conjunct1, THEN mp, OF v]
  note none = metric_null_exclusion [where vs = "[None, None]" and ar = exact,
      THEN conjunct2, THEN conjunct2, THEN conjunct2, THEN conjunct2, THEN conjunct1, THEN mp, OF e]
  from v some e none show ?thesis
    by (intro conjI)
qed

text \<open>
  C10. The keyword tests of the classifier are plain substring tests on the lower-cased
  query: a trigger that occurs inside a longer word of the query fires its test. A query
  that contains \<open>orcas\<close> (which contains \<open>rca\<close>) and fails the analyze-problem rule is
  classified as \<open>root_cause_analysis\<close>, and a query that contains \<open>whatever\<close> passes
  the test for an analysis word, through \<open>what\<close>.
\<close>

theorem substring_triggers:
  "(t \<in> set ts \<and> py_in t w \<and> py_in w (query_lower q) \<longrightarrow> any_in ts (query_lower q)) \<and>
   (py_in ''orcas'' (lower q) \<and> \<not> analyze_rule q \<longrightarrow>
      parse_intent q = Inr (''root_cause_analysis'',
        [(''problem_id'', extract_problem_id q),
         (''symptoms'', if truthy (extract_problem_id q) then None else Some q)])) \<and>
   (py_in ''whatever'' (lower q) \<longrightarrow> any_in analyze_words (query_lower q))"
proof (intro conjI impI)
  assume "t \<in> set ts \<and> py_in t w \<and> py_in w (query_lower q)"
  then show "any_in ts (query_lower q)"
    by (blast intro: any_in_member py_in_trans)
next
  assume a: "py_in ''orcas'' (lower q) \<and> \<not> analyze_rule q"
  have "py_in ''rca'' ''orcas''" by code_simp
  with a have "py_in ''rca'' (lower q)"
    by (blast intro: py_in_trans)
  then have "any_in rca_phrases (lower q)"
    by (intro any_in_member [of "''rca''"]) (simp_all add: rca_phrases_def)
  with a show "parse_intent q = Inr (''root_cause_analysis'',
        [(''problem_id'', extract_problem_id q),
         (''symptoms'', if truthy (extract_problem_id q) then None else Some q)])"
    by (simp add: parse_intent_rca rca_phrases_query_lower)
next
  assume a: "py_in ''whatever'' (lower q)"
  have "py_in ''what'' ''whatever''" by code_simp
  with a have "py_in ''what'' (lower q)"
    by (blast intro: py_in_trans)
  then have "any_in analyze_words (lower q)"
    by (intro any_in_member [of "''what''"]) (simp_all add: analyze_words_def)
  then show "any_in analyze_words (query_lower q)"
    by (simp add: analyze_words_query_lower)
qed

theorem substring_triggers_witness:
  "''rca'' \<in> set rca_phrases \<and> py_in ''rca'' ''orcas'' \<and>
   py_in ''orcas'' (query_lower ''The orcas are back'') \<and>
   any_in rca_phrases (query_lower ''The orcas are back'') \<and>
   py_in ''orcas'' (lower ''The orcas are back'') \<and> \<not> analyze_rule ''The orcas are back'' \<and>
   parse_intent ''The orcas are back'' =
     Inr (''root_cause_analysis'', [(''problem_id'', None), (''symptoms'', Some ''The orcas are back'')]) \<and>
   py_in ''whatever'' (lower ''Whatever happened to P-7'') \<and>
   any_in analyze_words (query_lower ''Whatever happened to P-7'')"
proof -
  have h1: "''rca'' \<in> set rca_phrases \<and> py_in ''rca'' ''orcas'' \<and>
      py_in ''orcas'' (query_lower ''The orcas are back'')"
    by code_simp
  have h2: "py_in ''orcas'' (lower ''The orcas are back'') \<and> \<not> analyze_rule ''The orcas are back''"
    by code_simp
  have e2: "extract_problem_id ''The orcas are back'' = None"
    by code_simp
  have h3: "py_in ''whatever'' (lower ''Whatever happened to P-7'')"
    by code_simp
  have "any_in rca_phrases (query_lower ''The orcas are back'')"
    using substring_triggers [where t = "''rca''" and ts = rca_phrases and w = "''orcas''"
        and q = "''The orcas are back''"] h1 by blast
  moreover have "parse_intent ''The orcas are back'' =
     Inr (''root_cause_analysis'',
       [(''problem_id'', extract_problem_id ''The orcas are back''),
        (''symptoms'', if truthy (extract_problem_id ''The orcas are back'') then None
           else Some ''The orcas are back'')])"
    using substring_triggers [where q = "''The orcas are back''"] h2 by blast
  then have "parse_intent ''The orcas are back'' =
     Inr (''root_cause_analysis'', [(''problem_id'', None), (''symptoms'', Some ''The orcas are back'')])"
    by (simp only: e2 truthy.simps if_False)
  moreover have "any_in analyze_words (query_lower ''Whatever happened to P-7'')"
    using substring_triggers [where q = "''Whatever happened to P-7''"] h3 by blast
  ultimately show ?thesis
    using h1 h2 h3 by blast
qed

end
